theory Spec2Isabelle
  imports Complex_Main "HOL-Library.Word"
begin

unbundle bit_operations_syntax

section \<open>The Airtable webhook receiver of AirBoost\<close>

text \<open>
  This theory embeds \<^verbatim>\<open>src/api/endpoints/webhooks.ts\<close>: the function \<^verbatim>\<open>isPing\<close> and the
  handler of \<^verbatim>\<open>POST /webhooks/airtable/refresh\<close>. The handler is a straight line of
  checks, each of which may return early; the model keeps the order of the source and
  returns, for one request, the reply, the state after it and the calls it made.

  JavaScript numbers that the handler computes with (clock readings in milliseconds, the
  two configured intervals in seconds) are integers far below \<open>2 ^ 53\<close>, where the
  arithmetic of doubles is exact; they are modelled as \<open>int\<close>. Strings are modelled as
  their UTF-8 bytes (\<open>string\<close>). Logging is not modelled, and the calls to the database
  are taken to succeed. Requests are handled one after the other: the interleaving of two
  handlers at their \<^verbatim>\<open>await\<close> points is not modelled.
\<close>

subsection \<open>Values of the JavaScript runtime\<close>

datatype json =
    JNull
  | JBool bool
  | JNum rat
  | JStr string
  | JArr "json list"
  | JObj "(string \<times> json) list"

datatype js_error = TypeError | RangeError

text \<open>
  \<^verbatim>\<open>key in v\<close>, for the keys this program asks for (\<^verbatim>\<open>base\<close>, \<^verbatim>\<open>webhook\<close>,
  \<^verbatim>\<open>timestamp\<close>): none of them is an array index, \<^verbatim>\<open>length\<close> or a property of a
  prototype, so an array has none of them and an object has them exactly when they are
  among its own keys. On a primitive value and on \<^verbatim>\<open>null\<close> the operator raises a TypeError.
\<close>

fun js_in :: "string \<Rightarrow> json \<Rightarrow> js_error + bool" where
  "js_in k (JObj kvs) = Inr (map_of kvs k \<noteq> None)"
| "js_in k (JArr xs) = Inr False"
| "js_in k v = Inl TypeError"

text \<open>
  \<^verbatim>\<open>v.key\<close> on a value that is not \<^verbatim>\<open>null\<close>, for the keys \<^verbatim>\<open>timestamp\<close>, \<^verbatim>\<open>webhook\<close>
  and \<^verbatim>\<open>id\<close>: \<open>None\<close> is \<^verbatim>\<open>undefined\<close>. \<^verbatim>\<open>v?.key\<close> is \<^verbatim>\<open>undefined\<close> as well when \<open>v\<close> is
  \<^verbatim>\<open>null\<close> or \<^verbatim>\<open>undefined\<close>.
\<close>

fun js_get :: "json \<Rightarrow> string \<Rightarrow> json option" where
  "js_get (JObj kvs) k = map_of kvs k"
| "js_get v k = None"

fun js_get_optional :: "json option \<Rightarrow> string \<Rightarrow> json option" where
  "js_get_optional None k = None"
| "js_get_optional (Some v) k = js_get v k"

text \<open>The truth value of \<^verbatim>\<open>if (v)\<close>.\<close>

fun truthy :: "json option \<Rightarrow> bool" where
  "truthy None = False"
| "truthy (Some JNull) = False"
| "truthy (Some (JBool b)) = b"
| "truthy (Some (JNum n)) = (n \<noteq> 0)"
| "truthy (Some (JStr s)) = (s \<noteq> [])"
| "truthy (Some (JArr xs)) = True"
| "truthy (Some (JObj kvs)) = True"

text \<open>\<^verbatim>\<open>Buffer.from(s)\<close>: the bytes of the string.\<close>

definition Buffer_from :: "string \<Rightarrow> 8 word list" where
  "Buffer_from s = map (\<lambda>c. word_of_nat (of_char c)) s"

text \<open>
  \<^verbatim>\<open>crypto.timingSafeEqual(a, b)\<close>: raises a RangeError when the lengths differ;
  otherwise every pair of bytes is combined, whatever the earlier pairs gave.
\<close>

definition timingSafeEqual :: "8 word list \<Rightarrow> 8 word list \<Rightarrow> js_error + bool" where
  "timingSafeEqual a b =
     (if length a \<noteq> length b then Inl RangeError
      else Inr (fold (\<lambda>(x, y) acc. acc OR (x XOR y)) (zip a b) 0 = 0))"

subsection \<open>What the handler is given\<close>

text \<open>
  The functions of the runtime and of the rest of the repository that the handler calls,
  and the two settings it reads from \<^verbatim>\<open>config\<close>:
  \<^item> \<open>JSON_parse\<close> is \<^verbatim>\<open>JSON.parse\<close>, \<open>None\<close> when it throws;
  \<^item> \<open>calculateWebhookHmac\<close> is the function of \<^verbatim>\<open>lib/airtable/webhook-hmac\<close>, taking the
    secret and the raw body;
  \<^item> \<open>Date_getTime v\<close> is \<^verbatim>\<open>new Date(v).getTime()\<close>, \<open>None\<close> when it is NaN;
  \<^item> \<open>String_of v\<close> is the text of \<open>v\<close> inside a template literal.
\<close>

record env =
  JSON_parse :: "string \<Rightarrow> json option"
  calculateWebhookHmac :: "string \<Rightarrow> string \<Rightarrow> string"
  Date_getTime :: "json \<Rightarrow> int option"
  String_of :: "json \<Rightarrow> string"
  webhookTimestampWindow :: int
  webhookRateLimit :: int

record request =
  text_of :: string
  x_airtable_content_mac :: "string option"

record webhook_config =
  macSecretBase64 :: string

text \<open>
  What surrounds one request: the webhook configuration that
  \<^verbatim>\<open>sqliteService.getWebhookConfig()\<close> returns, whether \<^verbatim>\<open>store.worker\<close> is set, and the
  three readings of \<^verbatim>\<open>Date.now()\<close> (lines 86, 97 and 128 of the source).
\<close>

record ambient =
  webhookConfig :: "webhook_config option"
  worker_present :: bool
  now_freshness :: int
  now_ratelimit :: int
  now_accept :: int

record marker =
  mode :: string
  meta_timestamp :: "json option"
  meta_webhookId :: "json option"

datatype worker_message = WEBHOOK_RECEIVED json

text \<open>
  The state the handler reads and writes: the module variable \<^verbatim>\<open>lastProcessedTime\<close>, the
  ledger of processed webhooks and the messages posted to the worker, the latest first.
\<close>

record state =
  lastProcessedTime :: int
  processed :: "string \<rightharpoonup> marker"
  posted :: "worker_message list"

text \<open>
  Modelled from the spec: \<^verbatim>\<open>sqliteService.isWebhookProcessed\<close> of \<^verbatim>\<open>lib/sqlite\<close>, which is
  not among the sources. The spec describes the idempotency marker as a durable record
  under the notification key, looked up before any mutation: a key is processed when the
  ledger holds a marker for it.
\<close>

definition isWebhookProcessed :: "state \<Rightarrow> string \<Rightarrow> bool" where
  "isWebhookProcessed s key = (processed s key \<noteq> None)"

text \<open>
  Modelled from the spec: \<^verbatim>\<open>sqliteService.markWebhookProcessed\<close> of \<^verbatim>\<open>lib/sqlite\<close>, which
  is not among the sources. The spec has the marker hold the notification key and the
  mode; the call of the handler passes the timestamp and the webhook identifier as well.
  The marker is written under its key and the other markers stay.
\<close>

definition markWebhookProcessed :: "string \<Rightarrow> string \<Rightarrow> json option \<Rightarrow> json option \<Rightarrow> state \<Rightarrow> state" where
  "markWebhookProcessed key m ts wid s =
     s\<lparr>processed := (processed s)(key \<mapsto> \<lparr>mode = m, meta_timestamp = ts, meta_webhookId = wid\<rparr>)\<rparr>"

text \<open>\<^verbatim>\<open>worker.postMessage(m)\<close>: the message is in the worker's queue.\<close>

definition postMessage :: "worker_message \<Rightarrow> state \<Rightarrow> state" where
  "postMessage m s = s\<lparr>posted := m # posted s\<rparr>"

definition initial :: state where
  "initial = \<lparr>lastProcessedTime = 0, processed = Map.empty, posted = []\<rparr>"

subsection \<open>What the handler gives back\<close>

datatype resp_body =
    ErrorBody string
  | RateLimitBody string int
  | StatusBody string
  | SkippedBody string string

record response =
  status :: nat
  body :: resp_body

text \<open>The calls of one run, in the order they are made.\<close>

datatype event =
    RequestText
  | JsonParse
  | IsPing
  | HeadersGet
  | GetWebhookConfig
  | CalculateWebhookHmac
  | TimingSafeEqual
  | DateNowFreshness
  | DateNowRateLimit
  | IsWebhookProcessed string
  | StoreWorker
  | SetLastProcessedTime int
  | MarkWebhookProcessed string
  | PostMessage worker_message

record result =
  reply :: "js_error + response"
  after :: state
  trace :: "event list"

text \<open>
  A \<^verbatim>\<open>return\<close> with \<^verbatim>\<open>set.status\<close>, an exception that leaves the handler, and the
  calls made before the rest of a run.
\<close>

definition respond :: "nat \<Rightarrow> resp_body \<Rightarrow> state \<Rightarrow> result" where
  "respond code b s = \<lparr>reply = Inr \<lparr>status = code, body = b\<rparr>, after = s, trace = []\<rparr>"

definition throw :: "js_error \<Rightarrow> state \<Rightarrow> result" where
  "throw e s = \<lparr>reply = Inl e, after = s, trace = []\<rparr>"

definition emit :: "event list \<Rightarrow> result \<Rightarrow> result" where
  "emit evs res = res\<lparr>trace := evs @ trace res\<rparr>"

subsection \<open>The source functions\<close>

text \<open>\<^verbatim>\<open>isPing\<close>, line 17: \<^verbatim>\<open>||\<close> evaluates its right operand only when the left one is false.\<close>

definition isPing :: "json \<Rightarrow> js_error + bool" where
  "isPing b =
     (case js_in ''base'' b of
        Inl e \<Rightarrow> Inl e
      | Inr True \<Rightarrow> Inr False
      | Inr False \<Rightarrow>
          (case js_in ''webhook'' b of
             Inl e \<Rightarrow> Inl e
           | Inr True \<Rightarrow> Inr False
           | Inr False \<Rightarrow>
               (case js_in ''timestamp'' b of
                  Inl e \<Rightarrow> Inl e
                | Inr t \<Rightarrow> Inr (\<not> t))))"

text \<open>The text of a value that may be \<^verbatim>\<open>undefined\<close> inside a template literal.\<close>

definition template :: "env \<Rightarrow> json option \<Rightarrow> string" where
  "template E v = (case v of None \<Rightarrow> ''undefined'' | Some j \<Rightarrow> String_of E j)"

text \<open>\<^verbatim>\<open>Math.ceil(ms / 1000)\<close>.\<close>

definition ceil_seconds :: "int \<Rightarrow> int" where
  "ceil_seconds ms = \<lceil>(of_int ms :: rat) / 1000\<rceil>"

text \<open>
  Step 8, lines 118 to 146: forward to the worker. The three effects on the state are in
  the order of the source: the rate-limit tracker, the marker, the message.
\<close>

definition forward_to_worker ::
  "env \<Rightarrow> ambient \<Rightarrow> json \<Rightarrow> json option \<Rightarrow> json option \<Rightarrow> string \<Rightarrow> state \<Rightarrow> result" where
  "forward_to_worker E A b timestamp webhookId idempotencyKey s =
     emit [StoreWorker]
       (if \<not> worker_present A then
          respond 503 (ErrorBody ''Worker service unavailable'') s
        else
          (let s1 = s\<lparr>lastProcessedTime := now_accept A\<rparr>;
               s2 = markWebhookProcessed idempotencyKey ''incremental'' timestamp webhookId s1;
               s3 = postMessage (WEBHOOK_RECEIVED b) s2
           in emit [SetLastProcessedTime (now_accept A), MarkWebhookProcessed idempotencyKey,
                    PostMessage (WEBHOOK_RECEIVED b)]
                (respond 200 (StatusBody ''success'') s3)))"

text \<open>Step 7, lines 108 to 116: the idempotency check.\<close>

definition idempotency_check ::
  "env \<Rightarrow> ambient \<Rightarrow> json \<Rightarrow> json option \<Rightarrow> state \<Rightarrow> result" where
  "idempotency_check E A b timestamp s =
     (let webhookId = js_get_optional (js_get b ''webhook'') ''id'';
          idempotencyKey = template E webhookId @ '':'' @ template E timestamp;
          alreadyProcessed = isWebhookProcessed s idempotencyKey
      in emit [IsWebhookProcessed idempotencyKey]
           (if alreadyProcessed then
              respond 200 (SkippedBody ''skipped'' ''Already processed'') s
            else forward_to_worker E A b timestamp webhookId idempotencyKey s))"

text \<open>Step 6, lines 96 to 106: rate limiting.\<close>

definition rate_limiting ::
  "env \<Rightarrow> ambient \<Rightarrow> json \<Rightarrow> json option \<Rightarrow> state \<Rightarrow> result" where
  "rate_limiting E A b timestamp s =
     (let now = now_ratelimit A;
          rateLimitMs = webhookRateLimit E * 1000;
          timeSinceLastProcess = now - lastProcessedTime s
      in emit [DateNowRateLimit]
           (if lastProcessedTime s > 0 \<and> timeSinceLastProcess < rateLimitMs then
              (let retryAfter = ceil_seconds (rateLimitMs - timeSinceLastProcess)
               in respond 429 (RateLimitBody ''Rate limit exceeded'' retryAfter) s)
            else idempotency_check E A b timestamp s))"

text \<open>
  Step 5, lines 82 to 94: timestamp validation. The date is built and the clock is read
  only when the timestamp is truthy.
\<close>

definition timestamp_validation ::
  "env \<Rightarrow> ambient \<Rightarrow> json \<Rightarrow> state \<Rightarrow> result" where
  "timestamp_validation E A b s =
     (let timestamp = js_get b ''timestamp'' in
      case timestamp of
        None \<Rightarrow> rate_limiting E A b timestamp s
      | Some t \<Rightarrow>
          if truthy timestamp then
            (let webhookTime = Date_getTime E t;
                 now = now_freshness A;
                 windowMs = webhookTimestampWindow E * 1000
             in emit [DateNowFreshness]
                  (case webhookTime of
                     None \<Rightarrow> respond 401 (ErrorBody ''Expired timestamp'') s
                   | Some wt \<Rightarrow>
                       if \<bar>now - wt\<bar> > windowMs then
                         respond 401 (ErrorBody ''Expired timestamp'') s
                       else rate_limiting E A b timestamp s))
          else rate_limiting E A b timestamp s)"

text \<open>Step 4, lines 49 to 80: the signature.\<close>

definition hmac_validation ::
  "env \<Rightarrow> ambient \<Rightarrow> request \<Rightarrow> json \<Rightarrow> state \<Rightarrow> result" where
  "hmac_validation E A r b s =
     emit [HeadersGet]
       (case x_airtable_content_mac r of
          None \<Rightarrow> respond 401 (ErrorBody ''Missing signature header'') s
        | Some signatureHeader \<Rightarrow>
            if signatureHeader = [] then
              respond 401 (ErrorBody ''Missing signature header'') s
            else
              emit [GetWebhookConfig]
                (case webhookConfig A of
                   None \<Rightarrow> respond 500 (ErrorBody ''Webhook not configured'') s
                 | Some cfg \<Rightarrow>
                     (let expectedHash = calculateWebhookHmac E (macSecretBase64 cfg) (text_of r);
                          expectedSignature = ''hmac-sha256='' @ expectedHash;
                          expectedBuf = Buffer_from expectedSignature;
                          providedBuf = Buffer_from signatureHeader
                      in emit [CalculateWebhookHmac]
                           (if length expectedBuf \<noteq> length providedBuf then
                              respond 401 (ErrorBody ''Invalid signature'') s
                            else
                              emit [TimingSafeEqual]
                                (case timingSafeEqual expectedBuf providedBuf of
                                   Inl e \<Rightarrow> throw e s
                                 | Inr same \<Rightarrow>
                                     if \<not> same then
                                       respond 401 (ErrorBody ''Invalid signature'') s
                                     else timestamp_validation E A b s)))))"

text \<open>The handler, from line 23: steps 1 to 3, and then the steps above.\<close>

definition webhooks :: "env \<Rightarrow> ambient \<Rightarrow> request \<Rightarrow> state \<Rightarrow> result" where
  "webhooks E A r s =
     (let rawBody = text_of r in
      emit [RequestText, JsonParse]
        (case JSON_parse E rawBody of
           None \<Rightarrow> respond 400 (ErrorBody ''Invalid JSON payload'') s
         | Some b \<Rightarrow>
             emit [IsPing]
               (case isPing b of
                  Inl e \<Rightarrow> throw e s
                | Inr True \<Rightarrow> respond 200 (StatusBody ''success'') s
                | Inr False \<Rightarrow> hmac_validation E A r b s)))"

subsection \<open>Reading a run\<close>

text \<open>The seven stages of the pipeline, and the stage each call belongs to.\<close>

fun stage_of :: "event \<Rightarrow> nat" where
  "stage_of RequestText = 1"
| "stage_of JsonParse = 1"
| "stage_of IsPing = 2"
| "stage_of HeadersGet = 3"
| "stage_of GetWebhookConfig = 3"
| "stage_of CalculateWebhookHmac = 3"
| "stage_of TimingSafeEqual = 3"
| "stage_of DateNowFreshness = 4"
| "stage_of DateNowRateLimit = 5"
| "stage_of (IsWebhookProcessed k) = 6"
| "stage_of StoreWorker = 7"
| "stage_of (SetLastProcessedTime t) = 7"
| "stage_of (MarkWebhookProcessed k) = 7"
| "stage_of (PostMessage m) = 7"

text \<open>The stage that sends each of the replies that turn a request down.\<close>

definition rejecting_stage :: "response \<Rightarrow> nat option" where
  "rejecting_stage resp =
     (if resp = \<lparr>status = 400, body = ErrorBody ''Invalid JSON payload''\<rparr> then Some 1
      else if resp = \<lparr>status = 401, body = ErrorBody ''Missing signature header''\<rparr> then Some 3
      else if resp = \<lparr>status = 500, body = ErrorBody ''Webhook not configured''\<rparr> then Some 3
      else if resp = \<lparr>status = 401, body = ErrorBody ''Invalid signature''\<rparr> then Some 3
      else if resp = \<lparr>status = 401, body = ErrorBody ''Expired timestamp''\<rparr> then Some 4
      else if status resp = 429 then Some 5
      else if resp = \<lparr>status = 200, body = SkippedBody ''skipped'' ''Already processed''\<rparr> then Some 6
      else if resp = \<lparr>status = 503, body = ErrorBody ''Worker service unavailable''\<rparr> then Some 7
      else None)"

fun is_post :: "event \<Rightarrow> bool" where
  "is_post (PostMessage m) = True"
| "is_post e = False"

text \<open>A run forwards its notification when it posts a message to the worker.\<close>

definition forwarded :: "result \<Rightarrow> bool" where
  "forwarded res = list_ex is_post (trace res)"

text \<open>The webhook identifier and the idempotency key of a body, lines 109 and 110.\<close>

definition webhookId_of :: "json \<Rightarrow> json option" where
  "webhookId_of b = js_get_optional (js_get b ''webhook'') ''id''"

definition idempotencyKey_of :: "env \<Rightarrow> json \<Rightarrow> string" where
  "idempotencyKey_of E b = template E (webhookId_of b) @ '':'' @ template E (js_get b ''timestamp'')"

text \<open>The signature that step 4 expects for a request.\<close>

definition expectedSignature_of :: "env \<Rightarrow> webhook_config \<Rightarrow> request \<Rightarrow> string" where
  "expectedSignature_of E cfg r = ''hmac-sha256='' @ calculateWebhookHmac E (macSecretBase64 cfg) (text_of r)"

text \<open>Requests handled one after the other, each in the state the one before left.\<close>

fun run :: "env \<Rightarrow> (ambient \<times> request) list \<Rightarrow> state \<Rightarrow> state" where
  "run E [] s = s"
| "run E ((A, r) # rest) s = run E rest (after (webhooks E A r s))"

text \<open>The calls that change the state.\<close>

fun is_effect :: "event \<Rightarrow> bool" where
  "is_effect (SetLastProcessedTime t) = True"
| "is_effect (MarkWebhookProcessed k) = True"
| "is_effect (PostMessage m) = True"
| "is_effect e = False"

text \<open>The state that lines 128 to 140 leave when they run for the body \<open>b\<close>.\<close>

definition accepted_state :: "env \<Rightarrow> ambient \<Rightarrow> json \<Rightarrow> state \<Rightarrow> state" where
  "accepted_state E A b s =
     postMessage (WEBHOOK_RECEIVED b)
       (markWebhookProcessed (idempotencyKey_of E b) ''incremental'' (js_get b ''timestamp'')
          (webhookId_of b) (s\<lparr>lastProcessedTime := now_accept A\<rparr>))"

text \<open>
  Calls in the order of the stages, none of them of a stage before \<open>k\<close>; and a run
  that, when a stage turns the request down, has made no call of a later stage.
\<close>

definition in_order_from :: "nat \<Rightarrow> event list \<Rightarrow> bool" where
  "in_order_from k evs = (evs \<noteq> [] \<and> sorted (map stage_of evs) \<and> list_all (\<lambda>e. k \<le> stage_of e) evs)"

definition short_circuits :: "result \<Rightarrow> bool" where
  "short_circuits res =
     (case reply res of
        Inl e \<Rightarrow> True
      | Inr resp \<Rightarrow>
          (case rejecting_stage resp of
             None \<Rightarrow> True
           | Some j \<Rightarrow> list_all (\<lambda>e. stage_of e \<le> j) (trace res)))"

subsection \<open>A deployment to run the handler on\<close>

text \<open>
  The secret \<^verbatim>\<open>s3cr3t\<close> in base64, three notifications for the webhook \<^verbatim>\<open>ach1\<close> (the
  third with an empty timestamp) and the runtime functions on these texts:
  \<open>example_parse\<close> agrees with \<^verbatim>\<open>JSON.parse\<close> on the texts it knows and takes every
  other text for malformed, \<open>example_date\<close> gives the milliseconds of the two dates and NaN
  for the empty string, \<open>example_string\<close> is the text of a string, of \<^verbatim>\<open>null\<close> and of a
  boolean. \<open>example_hmac\<close> stands for the keyed hash: the examples need a function of
  the secret and the body, not its digest.
\<close>

definition secret :: string where
  "secret = ''czNjcjN0''"

definition notification_1 :: string where
  \<open>notification_1 = ''{"webhook":{"id":"ach1"},"timestamp":"2024-01-01T00:00:00.000Z"}''\<close>

definition notification_2 :: string where
  \<open>notification_2 = ''{"webhook":{"id":"ach1"},"timestamp":"2024-01-01T00:00:01.000Z"}''\<close>

definition notification_blank :: string where
  \<open>notification_blank = ''{"webhook":{"id":"ach1"},"timestamp":""}''\<close>

definition object_of :: "string \<Rightarrow> json" where
  "object_of ts = JObj [(''webhook'', JObj [(''id'', JStr ''ach1'')]), (''timestamp'', JStr ts)]"

definition example_parse :: "string \<Rightarrow> json option" where
  "example_parse s =
     (if s = ''{}'' then Some (JObj [])
      else if s = ''null'' then Some JNull
      else if s = notification_1 then Some (object_of ''2024-01-01T00:00:00.000Z'')
      else if s = notification_2 then Some (object_of ''2024-01-01T00:00:01.000Z'')
      else if s = notification_blank then Some (object_of [])
      else None)"

definition example_hmac :: "string \<Rightarrow> string \<Rightarrow> string" where
  "example_hmac key msg = key @ ''.'' @ msg"

definition example_date :: "json \<Rightarrow> int option" where
  "example_date v =
     (if v = JStr ''2024-01-01T00:00:00.000Z'' then Some 1704067200000
      else if v = JStr ''2024-01-01T00:00:01.000Z'' then Some 1704067201000
      else None)"

fun example_string :: "json \<Rightarrow> string" where
  "example_string (JStr s) = s"
| "example_string JNull = ''null''"
| "example_string (JBool b) = (if b then ''true'' else ''false'')"
| "example_string v = ''[object Object]''"

text \<open>A freshness window of five minutes and a rate limit of one second.\<close>

definition example_env :: env where
  "example_env =
     \<lparr>JSON_parse = example_parse, calculateWebhookHmac = example_hmac,
      Date_getTime = example_date, String_of = example_string,
      webhookTimestampWindow = 300, webhookRateLimit = 1\<rparr>"

text \<open>A request that arrives at the millisecond \<open>t\<close>, the worker running.\<close>

definition arriving_at :: "int \<Rightarrow> ambient" where
  "arriving_at t =
     \<lparr>webhookConfig = Some \<lparr>macSecretBase64 = secret\<rparr>, worker_present = True,
      now_freshness = t, now_ratelimit = t, now_accept = t\<rparr>"

text \<open>A request whose signature is the expected one for its body, and one signed for another body.\<close>

definition signed_request :: "string \<Rightarrow> request" where
  "signed_request raw =
     \<lparr>text_of = raw, x_airtable_content_mac = Some (''hmac-sha256='' @ example_hmac secret raw)\<rparr>"

definition request_signed_for :: "string \<Rightarrow> string \<Rightarrow> request" where
  "request_signed_for other raw =
     \<lparr>text_of = raw, x_airtable_content_mac = Some (''hmac-sha256='' @ example_hmac secret other)\<rparr>"

section \<open>Facts about the steps\<close>

subsection \<open>The runtime functions\<close>

lemma ceil_seconds_div: "ceil_seconds ms = - ((- ms) div 1000)"
  unfolding ceil_seconds_def by (metis ceiling_divide_eq_div of_int_numeral)

lemma byte_of_char_inj:
  "(word_of_nat (of_char c) :: 8 word) = word_of_nat (of_char d) \<longleftrightarrow> c = d"
proof
  assume eq: "(word_of_nat (of_char c) :: 8 word) = word_of_nat (of_char d)"
  have "unat (word_of_nat (of_char c) :: 8 word) = unat (word_of_nat (of_char d) :: 8 word)"
    using eq by simp
  then have "(of_char c :: nat) mod 256 = of_char d mod 256"
    by (simp add: unat_of_nat)
  then show "c = d" by simp
qed simp

lemma length_Buffer_from [simp]: "length (Buffer_from s) = length s"
  by (simp add: Buffer_from_def)

lemma Buffer_from_eq_iff: "Buffer_from a = Buffer_from b \<longleftrightarrow> a = b"
proof -
  have "inj (\<lambda>c. word_of_nat (of_char c) :: 8 word)"
    by (rule injI) (simp add: byte_of_char_inj)
  then show ?thesis
    unfolding Buffer_from_def by (simp add: inj_map_eq_map)
qed

lemma or_xor_0: "(acc OR (x XOR y)) = 0 \<longleftrightarrow> acc = 0 \<and> x = (y :: 8 word)"
  by (metis bit.xor_left_self or_eq_0_iff xor.right_neutral)

lemma fold_or_xor:
  "length a = length b \<Longrightarrow>
   fold (\<lambda>(x, y) acc. acc OR (x XOR y)) (zip a b) (acc :: 8 word) = 0 \<longleftrightarrow> acc = 0 \<and> a = b"
proof (induction a b arbitrary: acc rule: list_induct2)
  case Nil
  then show ?case by simp
next
  case (Cons x xs y ys)
  then show ?case by (auto simp: or_xor_0)
qed

lemma timingSafeEqual_eq: "length a = length b \<Longrightarrow> timingSafeEqual a b = Inr (a = b)"
  by (simp add: timingSafeEqual_def fold_or_xor)

lemma reply_emit [simp]: "reply (emit evs res) = reply res"
  and after_emit [simp]: "after (emit evs res) = after res"
  and trace_emit [simp]: "trace (emit evs res) = evs @ trace res"
  by (simp_all add: emit_def)

lemma reply_respond [simp]: "reply (respond c b s) = Inr \<lparr>status = c, body = b\<rparr>"
  and after_respond [simp]: "after (respond c b s) = s"
  and trace_respond [simp]: "trace (respond c b s) = []"
  by (simp_all add: respond_def)

lemma reply_throw [simp]: "reply (throw e s) = Inl e"
  and after_throw [simp]: "after (throw e s) = s"
  and trace_throw [simp]: "trace (throw e s) = []"
  by (simp_all add: throw_def)

lemma isPing_obj:
  "isPing (JObj kvs) =
     Inr (map_of kvs ''base'' = None \<and> map_of kvs ''webhook'' = None \<and> map_of kvs ''timestamp'' = None)"
  by (auto simp: isPing_def split: bool.split)

lemma isPing_False_obj: "isPing b = Inr False \<Longrightarrow> \<exists>kvs. b = JObj kvs"
  by (cases b) (simp_all add: isPing_def)

text \<open>Step 4 with the comparison of buffers read as a comparison of strings.\<close>

lemma hmac_validation_cases:
  "hmac_validation E A r b s =
     emit [HeadersGet]
       (case x_airtable_content_mac r of
          None \<Rightarrow> respond 401 (ErrorBody ''Missing signature header'') s
        | Some h \<Rightarrow>
            if h = [] then respond 401 (ErrorBody ''Missing signature header'') s
            else
              emit [GetWebhookConfig]
                (case webhookConfig A of
                   None \<Rightarrow> respond 500 (ErrorBody ''Webhook not configured'') s
                 | Some cfg \<Rightarrow>
                     emit [CalculateWebhookHmac]
                       (if length (expectedSignature_of E cfg r) \<noteq> length h then
                          respond 401 (ErrorBody ''Invalid signature'') s
                        else
                          emit [TimingSafeEqual]
                            (if h \<noteq> expectedSignature_of E cfg r then
                               respond 401 (ErrorBody ''Invalid signature'') s
                             else timestamp_validation E A b s))))"
  by (auto simp: hmac_validation_def Let_def expectedSignature_of_def timingSafeEqual_eq
      Buffer_from_eq_iff split: option.split)

subsection \<open>The order of the calls\<close>

lemma in_order_from_leaf:
  "evs \<noteq> [] \<Longrightarrow> sorted (map stage_of evs) \<Longrightarrow> list_all (\<lambda>e. k \<le> stage_of e) evs \<Longrightarrow>
   in_order_from k (evs @ [])"
  by (simp add: in_order_from_def)

lemma in_order_from_emit:
  "in_order_from k' rest \<Longrightarrow> sorted (map stage_of evs) \<Longrightarrow>
   list_all (\<lambda>e. k \<le> stage_of e \<and> stage_of e \<le> k') evs \<Longrightarrow> k \<le> k' \<Longrightarrow>
   in_order_from k (evs @ rest)"
  by (fastforce simp: in_order_from_def sorted_append list_all_iff)

lemma forward_order: "in_order_from 7 (trace (forward_to_worker E A b ts wid k s))"
  by (simp add: forward_to_worker_def Let_def in_order_from_def)

lemma idempotency_order: "in_order_from 6 (trace (idempotency_check E A b ts s))"
  using in_order_from_emit [OF forward_order, of "[IsWebhookProcessed k]" 6 for k]
  by (simp add: idempotency_check_def Let_def in_order_from_def)

lemma rate_limiting_order: "in_order_from 5 (trace (rate_limiting E A b ts s))"
  using in_order_from_emit [OF idempotency_order, of "[DateNowRateLimit]" 5]
  by (simp add: rate_limiting_def Let_def in_order_from_def)

lemma timestamp_order: "in_order_from 4 (trace (timestamp_validation E A b s))"
  using in_order_from_emit [OF rate_limiting_order, of "[DateNowFreshness]" 4]
    in_order_from_emit [OF rate_limiting_order, of "[]" 4]
  by (simp add: timestamp_validation_def Let_def in_order_from_def split: option.split)

lemma hmac_order: "in_order_from 3 (trace (hmac_validation E A r b s))"
  using in_order_from_emit [OF timestamp_order,
      of "[HeadersGet, GetWebhookConfig, CalculateWebhookHmac, TimingSafeEqual]" 3]
  by (simp add: hmac_validation_cases in_order_from_def split: option.split)

lemma webhooks_order: "in_order_from 1 (trace (webhooks E A r s))"
  using in_order_from_emit [OF hmac_order, of "[RequestText, JsonParse, IsPing]" 1]
  by (simp add: webhooks_def Let_def in_order_from_def split: option.split sum.split bool.split)

subsection \<open>A run that does not forward changes nothing\<close>

lemma forward_quiet:
  "list_ex is_post (trace (forward_to_worker E A b ts wid k s)) \<or>
   after (forward_to_worker E A b ts wid k s) = s \<and>
   \<not> list_ex is_effect (trace (forward_to_worker E A b ts wid k s))"
  by (simp add: forward_to_worker_def Let_def)

lemma idempotency_quiet:
  "list_ex is_post (trace (idempotency_check E A b ts s)) \<or>
   after (idempotency_check E A b ts s) = s \<and>
   \<not> list_ex is_effect (trace (idempotency_check E A b ts s))"
  using forward_quiet by (simp add: idempotency_check_def Let_def)

lemma rate_limiting_quiet:
  "list_ex is_post (trace (rate_limiting E A b ts s)) \<or>
   after (rate_limiting E A b ts s) = s \<and>
   \<not> list_ex is_effect (trace (rate_limiting E A b ts s))"
  using idempotency_quiet by (simp add: rate_limiting_def Let_def)

lemma timestamp_quiet:
  "list_ex is_post (trace (timestamp_validation E A b s)) \<or>
   after (timestamp_validation E A b s) = s \<and>
   \<not> list_ex is_effect (trace (timestamp_validation E A b s))"
  using rate_limiting_quiet by (simp add: timestamp_validation_def Let_def split: option.split)

lemma hmac_quiet:
  "list_ex is_post (trace (hmac_validation E A r b s)) \<or>
   after (hmac_validation E A r b s) = s \<and>
   \<not> list_ex is_effect (trace (hmac_validation E A r b s))"
  using timestamp_quiet by (simp add: hmac_validation_cases split: option.split)

lemma webhooks_quiet:
  "forwarded (webhooks E A r s) \<or>
   after (webhooks E A r s) = s \<and> \<not> list_ex is_effect (trace (webhooks E A r s))"
  using hmac_quiet
  by (simp add: webhooks_def forwarded_def Let_def split: option.split sum.split bool.split)

subsection \<open>What a run that forwards has done\<close>

lemma forward_accepted:
  assumes "list_ex is_post (trace (forward_to_worker E A b ts wid k s))"
  shows "worker_present A \<and>
    reply (forward_to_worker E A b ts wid k s) = Inr \<lparr>status = 200, body = StatusBody ''success''\<rparr> \<and>
    after (forward_to_worker E A b ts wid k s) =
      postMessage (WEBHOOK_RECEIVED b)
        (markWebhookProcessed k ''incremental'' ts wid (s\<lparr>lastProcessedTime := now_accept A\<rparr>)) \<and>
    trace (forward_to_worker E A b ts wid k s) =
      [StoreWorker, SetLastProcessedTime (now_accept A), MarkWebhookProcessed k,
       PostMessage (WEBHOOK_RECEIVED b)]"
  using assms by (simp add: forward_to_worker_def Let_def split: if_splits)

lemma idempotency_accepted:
  assumes "list_ex is_post (trace (idempotency_check E A b (js_get b ''timestamp'') s))"
  shows "processed s (idempotencyKey_of E b) = None \<and> worker_present A \<and>
    reply (idempotency_check E A b (js_get b ''timestamp'') s) =
      Inr \<lparr>status = 200, body = StatusBody ''success''\<rparr> \<and>
    after (idempotency_check E A b (js_get b ''timestamp'') s) = accepted_state E A b s \<and>
    trace (idempotency_check E A b (js_get b ''timestamp'') s) =
      [IsWebhookProcessed (idempotencyKey_of E b), StoreWorker, SetLastProcessedTime (now_accept A),
       MarkWebhookProcessed (idempotencyKey_of E b), PostMessage (WEBHOOK_RECEIVED b)]"
proof (cases "isWebhookProcessed s (idempotencyKey_of E b)")
  case True
  then show ?thesis
    using assms by (simp add: idempotency_check_def Let_def idempotencyKey_of_def webhookId_of_def)
next
  case False
  then have eq: "idempotency_check E A b (js_get b ''timestamp'') s =
      emit [IsWebhookProcessed (idempotencyKey_of E b)]
        (forward_to_worker E A b (js_get b ''timestamp'') (webhookId_of b) (idempotencyKey_of E b) s)"
    by (simp add: idempotency_check_def Let_def idempotencyKey_of_def webhookId_of_def)
  have "list_ex is_post (trace (forward_to_worker E A b (js_get b ''timestamp'') (webhookId_of b)
      (idempotencyKey_of E b) s))"
    using assms by (simp add: eq)
  from forward_accepted [OF this] False show ?thesis
    by (simp add: eq accepted_state_def isWebhookProcessed_def)
qed

lemma rate_limiting_accepted:
  assumes "list_ex is_post (trace (rate_limiting E A b (js_get b ''timestamp'') s))"
  shows "\<not> (lastProcessedTime s > 0 \<and> now_ratelimit A - lastProcessedTime s < webhookRateLimit E * 1000) \<and>
    processed s (idempotencyKey_of E b) = None \<and> worker_present A \<and>
    reply (rate_limiting E A b (js_get b ''timestamp'') s) =
      Inr \<lparr>status = 200, body = StatusBody ''success''\<rparr> \<and>
    after (rate_limiting E A b (js_get b ''timestamp'') s) = accepted_state E A b s \<and>
    trace (rate_limiting E A b (js_get b ''timestamp'') s) =
      [DateNowRateLimit, IsWebhookProcessed (idempotencyKey_of E b), StoreWorker,
       SetLastProcessedTime (now_accept A), MarkWebhookProcessed (idempotencyKey_of E b),
       PostMessage (WEBHOOK_RECEIVED b)]"
proof (cases "lastProcessedTime s > 0 \<and> now_ratelimit A - lastProcessedTime s < webhookRateLimit E * 1000")
  case True
  then show ?thesis using assms by (simp add: rate_limiting_def Let_def)
next
  case False
  then have eq: "rate_limiting E A b (js_get b ''timestamp'') s =
      emit [DateNowRateLimit] (idempotency_check E A b (js_get b ''timestamp'') s)"
    by (auto simp: rate_limiting_def Let_def)
  have "list_ex is_post (trace (idempotency_check E A b (js_get b ''timestamp'') s))"
    using assms by (simp add: eq)
  from idempotency_accepted [OF this] False show ?thesis
    by (simp add: eq)
qed

lemma timestamp_validation_falsy:
  "\<not> truthy (js_get b ''timestamp'') \<Longrightarrow>
   timestamp_validation E A b s = rate_limiting E A b (js_get b ''timestamp'') s"
  by (cases "js_get b ''timestamp''") (simp_all add: timestamp_validation_def Let_def)

lemma timestamp_validation_truthy:
  "js_get b ''timestamp'' = Some t \<Longrightarrow> truthy (Some t) \<Longrightarrow>
   timestamp_validation E A b s =
     emit [DateNowFreshness]
       (case Date_getTime E t of
          None \<Rightarrow> respond 401 (ErrorBody ''Expired timestamp'') s
        | Some wt \<Rightarrow>
            if \<bar>now_freshness A - wt\<bar> > webhookTimestampWindow E * 1000 then
              respond 401 (ErrorBody ''Expired timestamp'') s
            else rate_limiting E A b (Some t) s)"
  by (simp add: timestamp_validation_def Let_def)

lemma truthy_Some: "truthy v \<Longrightarrow> \<exists>t. v = Some t"
  by (cases v) simp_all

lemma timestamp_accepted:
  assumes "list_ex is_post (trace (timestamp_validation E A b s))"
  shows "list_ex is_post (trace (rate_limiting E A b (js_get b ''timestamp'') s))"
    and "timestamp_validation E A b s =
      emit (if truthy (js_get b ''timestamp'') then [DateNowFreshness] else [])
        (rate_limiting E A b (js_get b ''timestamp'') s)"
    and "\<And>t. js_get b ''timestamp'' = Some t \<Longrightarrow> truthy (Some t) \<Longrightarrow>
      \<exists>wt. Date_getTime E t = Some wt \<and> \<bar>now_freshness A - wt\<bar> \<le> webhookTimestampWindow E * 1000"
proof -
  have all: "list_ex is_post (trace (rate_limiting E A b (js_get b ''timestamp'') s)) \<and>
      timestamp_validation E A b s =
        emit (if truthy (js_get b ''timestamp'') then [DateNowFreshness] else [])
          (rate_limiting E A b (js_get b ''timestamp'') s) \<and>
      (\<forall>t. js_get b ''timestamp'' = Some t \<longrightarrow> truthy (Some t) \<longrightarrow>
        (\<exists>wt. Date_getTime E t = Some wt \<and> \<bar>now_freshness A - wt\<bar> \<le> webhookTimestampWindow E * 1000))"
  proof (cases "truthy (js_get b ''timestamp'')")
    case False
    then show ?thesis
      using assms by (auto simp: timestamp_validation_falsy emit_def)
  next
    case True
    then obtain t where t: "js_get b ''timestamp'' = Some t"
      using truthy_Some by blast
    with True have tt: "truthy (Some t)" by simp
    show ?thesis
      using assms True
      by (cases "Date_getTime E t")
        (simp_all add: timestamp_validation_truthy [OF t tt] t split: if_splits)
  qed
  show "list_ex is_post (trace (rate_limiting E A b (js_get b ''timestamp'') s))"
    using all by blast
  show "timestamp_validation E A b s =
      emit (if truthy (js_get b ''timestamp'') then [DateNowFreshness] else [])
        (rate_limiting E A b (js_get b ''timestamp'') s)"
    using all by blast
  show "\<exists>wt. Date_getTime E t = Some wt \<and> \<bar>now_freshness A - wt\<bar> \<le> webhookTimestampWindow E * 1000"
    if "js_get b ''timestamp'' = Some t" "truthy (Some t)" for t
    using all that by blast
qed

lemma hmac_accepted:
  assumes "list_ex is_post (trace (hmac_validation E A r b s))"
  shows "\<exists>cfg. webhookConfig A = Some cfg \<and> x_airtable_content_mac r = Some (expectedSignature_of E cfg r)"
    and "list_ex is_post (trace (timestamp_validation E A b s))"
    and "hmac_validation E A r b s =
      emit [HeadersGet, GetWebhookConfig, CalculateWebhookHmac, TimingSafeEqual]
        (timestamp_validation E A b s)"
  using assms
  by (auto simp: hmac_validation_cases emit_def split: option.splits if_splits)

lemma webhooks_forwarded_iff:
  assumes "JSON_parse E (text_of r) = Some b"
  shows "forwarded (webhooks E A r s) \<longleftrightarrow>
    isPing b = Inr False \<and> list_ex is_post (trace (hmac_validation E A r b s))"
  using assms
  by (auto simp: webhooks_def forwarded_def Let_def split: sum.splits bool.splits)

lemma webhooks_not_ping:
  assumes "JSON_parse E (text_of r) = Some b" "isPing b = Inr False"
  shows "webhooks E A r s = emit [RequestText, JsonParse, IsPing] (hmac_validation E A r b s)"
  using assms by (simp add: webhooks_def emit_def)

lemma unparseable_never_forwarded:
  "JSON_parse E (text_of r) = None \<Longrightarrow> \<not> forwarded (webhooks E A r s)"
  by (simp add: webhooks_def forwarded_def)

lemma webhooks_accepted:
  assumes "JSON_parse E (text_of r) = Some b" "forwarded (webhooks E A r s)"
  shows "isPing b = Inr False"
    and "\<exists>cfg. webhookConfig A = Some cfg \<and> x_airtable_content_mac r = Some (expectedSignature_of E cfg r)"
    and "\<not> (lastProcessedTime s > 0 \<and> now_ratelimit A - lastProcessedTime s < webhookRateLimit E * 1000)"
    and "processed s (idempotencyKey_of E b) = None"
    and "worker_present A"
    and "reply (webhooks E A r s) = Inr \<lparr>status = 200, body = StatusBody ''success''\<rparr>"
    and "after (webhooks E A r s) = accepted_state E A b s"
    and "trace (webhooks E A r s) =
      [RequestText, JsonParse, IsPing, HeadersGet, GetWebhookConfig, CalculateWebhookHmac, TimingSafeEqual]
      @ (if truthy (js_get b ''timestamp'') then [DateNowFreshness] else [])
      @ [DateNowRateLimit, IsWebhookProcessed (idempotencyKey_of E b), StoreWorker,
         SetLastProcessedTime (now_accept A), MarkWebhookProcessed (idempotencyKey_of E b),
         PostMessage (WEBHOOK_RECEIVED b)]"
proof -
  from assms show np: "isPing b = Inr False"
    by (simp add: webhooks_forwarded_iff)
  from assms have h: "list_ex is_post (trace (hmac_validation E A r b s))"
    by (simp add: webhooks_forwarded_iff)
  note H = hmac_accepted [OF h]
  note T = timestamp_accepted [OF H(2)]
  note R = rate_limiting_accepted [OF T(1)]
  show "\<exists>cfg. webhookConfig A = Some cfg \<and> x_airtable_content_mac r = Some (expectedSignature_of E cfg r)"
    by (rule H(1))
  show "\<not> (lastProcessedTime s > 0 \<and> now_ratelimit A - lastProcessedTime s < webhookRateLimit E * 1000)"
    using R by blast
  show "processed s (idempotencyKey_of E b) = None" using R by blast
  show "worker_present A" using R by blast
  have eq: "webhooks E A r s =
      emit [RequestText, JsonParse, IsPing]
        (emit [HeadersGet, GetWebhookConfig, CalculateWebhookHmac, TimingSafeEqual]
          (emit (if truthy (js_get b ''timestamp'') then [DateNowFreshness] else [])
            (rate_limiting E A b (js_get b ''timestamp'') s)))"
    using webhooks_not_ping [OF assms(1) np] H(3) T(2) by simp
  show "reply (webhooks E A r s) = Inr \<lparr>status = 200, body = StatusBody ''success''\<rparr>"
    using R by (simp add: eq)
  show "after (webhooks E A r s) = accepted_state E A b s"
    using R by (simp add: eq)
  show "trace (webhooks E A r s) =
      [RequestText, JsonParse, IsPing, HeadersGet, GetWebhookConfig, CalculateWebhookHmac, TimingSafeEqual]
      @ (if truthy (js_get b ''timestamp'') then [DateNowFreshness] else [])
      @ [DateNowRateLimit, IsWebhookProcessed (idempotencyKey_of E b), StoreWorker,
         SetLastProcessedTime (now_accept A), MarkWebhookProcessed (idempotencyKey_of E b),
         PostMessage (WEBHOOK_RECEIVED b)]"
    using R by (simp add: eq)
qed

subsection \<open>Requests with and without the expected signature\<close>

lemma expectedSignature_nonempty [simp]: "expectedSignature_of E cfg r \<noteq> []"
  by (simp add: expectedSignature_of_def)

lemma hmac_validation_signed:
  assumes "webhookConfig A = Some cfg"
    and "x_airtable_content_mac r = Some (expectedSignature_of E cfg r)"
  shows "hmac_validation E A r b s =
    emit [HeadersGet, GetWebhookConfig, CalculateWebhookHmac, TimingSafeEqual]
      (timestamp_validation E A b s)"
  using assms by (simp add: hmac_validation_cases emit_def)

lemma hmac_validation_unsigned:
  assumes "webhookConfig A = Some cfg"
    and "x_airtable_content_mac r \<noteq> Some (expectedSignature_of E cfg r)"
  shows "(reply (hmac_validation E A r b s) = Inr \<lparr>status = 401, body = ErrorBody ''Missing signature header''\<rparr> \<and>
        (x_airtable_content_mac r = None \<or> x_airtable_content_mac r = Some []) \<or>
      reply (hmac_validation E A r b s) = Inr \<lparr>status = 401, body = ErrorBody ''Invalid signature''\<rparr> \<and>
        (\<exists>h. x_airtable_content_mac r = Some h \<and> h \<noteq> [])) \<and>
    after (hmac_validation E A r b s) = s \<and>
    list_all (\<lambda>e. stage_of e = 3) (trace (hmac_validation E A r b s))"
  using assms by (auto simp: hmac_validation_cases split: option.splits)

lemma webhooks_signed:
  assumes "JSON_parse E (text_of r) = Some b" and "isPing b = Inr False"
    and "webhookConfig A = Some cfg"
    and "x_airtable_content_mac r = Some (expectedSignature_of E cfg r)"
  shows "webhooks E A r s =
    emit [RequestText, JsonParse, IsPing, HeadersGet, GetWebhookConfig, CalculateWebhookHmac,
          TimingSafeEqual]
      (timestamp_validation E A b s)"
  by (simp add: webhooks_not_ping [OF assms(1,2)] hmac_validation_signed [OF assms(3,4)] emit_def)

lemma timestamp_validation_passes:
  assumes "\<And>t. js_get b ''timestamp'' = Some t \<Longrightarrow> truthy (Some t) \<Longrightarrow>
      \<exists>wt. Date_getTime E t = Some wt \<and> \<bar>now_freshness A - wt\<bar> \<le> webhookTimestampWindow E * 1000"
  shows "timestamp_validation E A b s =
    emit (if truthy (js_get b ''timestamp'') then [DateNowFreshness] else [])
      (rate_limiting E A b (js_get b ''timestamp'') s)"
proof (cases "truthy (js_get b ''timestamp'')")
  case False
  then show ?thesis by (simp add: timestamp_validation_falsy emit_def)
next
  case True
  then obtain t where t: "js_get b ''timestamp'' = Some t"
    using truthy_Some by blast
  with True have tt: "truthy (Some t)" by simp
  from assms [OF t tt] obtain wt where
    "Date_getTime E t = Some wt" "\<bar>now_freshness A - wt\<bar> \<le> webhookTimestampWindow E * 1000"
    by blast
  then show ?thesis
    using True by (simp add: timestamp_validation_truthy [OF t tt] t)
qed

lemma rate_limiting_limited:
  assumes "0 < lastProcessedTime s"
    and "now_ratelimit A - lastProcessedTime s < webhookRateLimit E * 1000"
  shows "rate_limiting E A b ts s =
    emit [DateNowRateLimit]
      (respond 429
         (RateLimitBody ''Rate limit exceeded''
            (ceil_seconds (webhookRateLimit E * 1000 - (now_ratelimit A - lastProcessedTime s)))) s)"
  using assms by (simp add: rate_limiting_def Let_def)

lemma ceil_seconds_bounds: "1000 * (ceil_seconds ms - 1) < ms \<and> ms \<le> 1000 * ceil_seconds ms"
proof -
  define q where "q = (- ms) div 1000"
  define m where "m = (- ms) mod 1000"
  have "- ms = 1000 * q + m" and "0 \<le> m" and "m < 1000"
    by (simp_all add: q_def m_def)
  moreover have "ceil_seconds ms = - q"
    by (simp add: ceil_seconds_div q_def)
  ultimately show ?thesis by auto
qed

subsection \<open>A stage that turns a request down ends the run\<close>

lemma short_circuits_leaf:
  assumes "\<And>j. rejecting_stage \<lparr>status = c, body = b\<rparr> = Some j \<Longrightarrow> list_all (\<lambda>e. stage_of e \<le> j) evs"
  shows "short_circuits (emit evs (respond c b s))"
  using assms by (simp add: short_circuits_def split: option.split)

lemma short_circuits_emit:
  assumes "short_circuits rest" and "in_order_from k (trace rest)"
    and "list_all (\<lambda>e. stage_of e \<le> k) evs"
  shows "short_circuits (emit evs rest)"
proof (cases "reply rest")
  case (Inl e)
  then show ?thesis by (simp add: short_circuits_def)
next
  case (Inr resp)
  show ?thesis
  proof (cases "rejecting_stage resp")
    case None
    with Inr show ?thesis by (simp add: short_circuits_def)
  next
    case (Some j)
    with Inr assms(1) have le: "list_all (\<lambda>e. stage_of e \<le> j) (trace rest)"
      by (simp add: short_circuits_def)
    from assms(2) obtain e where e: "e \<in> set (trace rest)" "k \<le> stage_of e"
      by (cases "trace rest") (auto simp: in_order_from_def)
    with le have "k \<le> j" by (auto simp: list_all_iff)
    with assms(3) have "list_all (\<lambda>e. stage_of e \<le> j) evs"
      by (auto simp: list_all_iff)
    with le Inr Some show ?thesis by (simp add: short_circuits_def)
  qed
qed

lemma forward_short: "short_circuits (forward_to_worker E A b ts wid k s)"
  by (simp add: forward_to_worker_def Let_def short_circuits_def rejecting_stage_def)

lemma idempotency_short: "short_circuits (idempotency_check E A b ts s)"
proof -
  have "short_circuits (emit [IsWebhookProcessed k]
      (respond 200 (SkippedBody ''skipped'' ''Already processed'') s))" for k
    by (rule short_circuits_leaf) (simp add: rejecting_stage_def)
  moreover have "short_circuits (emit [IsWebhookProcessed k] (forward_to_worker E A b ts wid k s))" for k wid
    by (rule short_circuits_emit [OF forward_short forward_order]) simp
  ultimately show ?thesis
    by (simp add: idempotency_check_def Let_def)
qed

lemma rate_limiting_short: "short_circuits (rate_limiting E A b ts s)"
proof -
  have "short_circuits (emit [DateNowRateLimit]
      (respond 429 (RateLimitBody ''Rate limit exceeded'' n) s))" for n
    by (rule short_circuits_leaf) (simp add: rejecting_stage_def)
  moreover have "short_circuits (emit [DateNowRateLimit] (idempotency_check E A b ts s))"
    by (rule short_circuits_emit [OF idempotency_short idempotency_order]) simp
  ultimately show ?thesis
    by (simp add: rate_limiting_def Let_def)
qed

lemma timestamp_short: "short_circuits (timestamp_validation E A b s)"
proof (cases "truthy (js_get b ''timestamp'')")
  case False
  then show ?thesis
    by (simp add: timestamp_validation_falsy rate_limiting_short)
next
  case True
  then obtain t where t: "js_get b ''timestamp'' = Some t"
    using truthy_Some by blast
  with True have tt: "truthy (Some t)" by simp
  have "short_circuits (emit [DateNowFreshness] (respond 401 (ErrorBody ''Expired timestamp'') s))"
    by (rule short_circuits_leaf) (simp add: rejecting_stage_def)
  moreover have "short_circuits (emit [DateNowFreshness] (rate_limiting E A b (Some t) s))"
    by (rule short_circuits_emit [OF rate_limiting_short rate_limiting_order]) simp
  ultimately show ?thesis
    by (simp add: timestamp_validation_truthy [OF t tt] split: option.split)
qed

lemma hmac_short: "short_circuits (hmac_validation E A r b s)"
proof -
  have 1: "short_circuits (emit [HeadersGet] (respond 401 (ErrorBody ''Missing signature header'') s))"
    by (rule short_circuits_leaf) (simp add: rejecting_stage_def)
  have 2: "short_circuits (emit [HeadersGet] (emit [GetWebhookConfig]
      (respond 500 (ErrorBody ''Webhook not configured'') s)))"
    by (simp add: short_circuits_def rejecting_stage_def)
  have 3: "short_circuits (emit [HeadersGet] (emit [GetWebhookConfig] (emit [CalculateWebhookHmac]
      (respond 401 (ErrorBody ''Invalid signature'') s))))"
    by (simp add: short_circuits_def rejecting_stage_def)
  have 4: "short_circuits (emit [HeadersGet] (emit [GetWebhookConfig] (emit [CalculateWebhookHmac]
      (emit [TimingSafeEqual] (respond 401 (ErrorBody ''Invalid signature'') s)))))"
    by (simp add: short_circuits_def rejecting_stage_def)
  have "short_circuits (emit [HeadersGet, GetWebhookConfig, CalculateWebhookHmac, TimingSafeEqual]
      (timestamp_validation E A b s))"
    by (rule short_circuits_emit [OF timestamp_short timestamp_order]) simp
  then have 5: "short_circuits (emit [HeadersGet] (emit [GetWebhookConfig] (emit [CalculateWebhookHmac]
      (emit [TimingSafeEqual] (timestamp_validation E A b s)))))"
    by (simp add: emit_def)
  show ?thesis
    using 1 2 3 4 5 by (simp add: hmac_validation_cases split: option.split)
qed

lemma webhooks_short: "short_circuits (webhooks E A r s)"
proof -
  have 1: "short_circuits (emit [RequestText, JsonParse] (respond 400 (ErrorBody ''Invalid JSON payload'') s))"
    by (rule short_circuits_leaf) (simp add: rejecting_stage_def)
  have 2: "short_circuits (emit [RequestText, JsonParse] (emit [IsPing] (throw e s)))" for e
    by (simp add: short_circuits_def)
  have 3: "short_circuits (emit [RequestText, JsonParse] (emit [IsPing]
      (respond 200 (StatusBody ''success'') s)))"
    by (simp add: short_circuits_def rejecting_stage_def)
  have "short_circuits (emit [RequestText, JsonParse, IsPing] (hmac_validation E A r b s))" for b
    by (rule short_circuits_emit [OF hmac_short hmac_order]) simp
  then have 4: "short_circuits (emit [RequestText, JsonParse] (emit [IsPing]
      (hmac_validation E A r b s)))" for b
    by (simp add: emit_def)
  show ?thesis
    using 1 2 3 4
    by (simp add: webhooks_def Let_def split: option.split sum.split bool.split)
qed

subsection \<open>Every reply is a rejection, a success or the TypeError of a body that is no object\<close>

lemma webhooks_throws_only_on_non_objects:
  "reply (webhooks E A r s) = Inl e \<Longrightarrow>
   \<exists>b. JSON_parse E (text_of r) = Some b \<and> isPing b = Inl e"
  by (auto simp: webhooks_def Let_def hmac_validation_cases timestamp_validation_def
      rate_limiting_def idempotency_check_def forward_to_worker_def
      split: option.splits sum.splits bool.splits if_splits)

subsection \<open>A marked key\<close>

lemma idempotency_marked:
  assumes "processed s (idempotencyKey_of E b) \<noteq> None"
  shows "idempotency_check E A b (js_get b ''timestamp'') s =
    emit [IsWebhookProcessed (idempotencyKey_of E b)]
      (respond 200 (SkippedBody ''skipped'' ''Already processed'') s)"
  using assms
  by (simp add: idempotency_check_def Let_def isWebhookProcessed_def idempotencyKey_of_def
      webhookId_of_def)

lemma rate_limiting_marked:
  assumes "processed s (idempotencyKey_of E b) \<noteq> None"
  shows "list_all (\<lambda>e. stage_of e \<le> 6) (trace (rate_limiting E A b (js_get b ''timestamp'') s)) \<and>
    (IsWebhookProcessed (idempotencyKey_of E b) \<in> set (trace (rate_limiting E A b (js_get b ''timestamp'') s)) \<longrightarrow>
     reply (rate_limiting E A b (js_get b ''timestamp'') s) =
       Inr \<lparr>status = 200, body = SkippedBody ''skipped'' ''Already processed''\<rparr>)"
  by (simp add: rate_limiting_def Let_def idempotency_marked [OF assms])

lemma rate_limiting_not_limited:
  assumes "\<not> (0 < lastProcessedTime s \<and> now_ratelimit A - lastProcessedTime s < webhookRateLimit E * 1000)"
  shows "rate_limiting E A b ts s = emit [DateNowRateLimit] (idempotency_check E A b ts s)"
  using assms by (auto simp: rate_limiting_def Let_def)

lemma timestamp_marked:
  assumes "processed s (idempotencyKey_of E b) \<noteq> None"
  shows "list_all (\<lambda>e. stage_of e \<le> 6) (trace (timestamp_validation E A b s)) \<and>
    (IsWebhookProcessed (idempotencyKey_of E b) \<in> set (trace (timestamp_validation E A b s)) \<longrightarrow>
     reply (timestamp_validation E A b s) =
       Inr \<lparr>status = 200, body = SkippedBody ''skipped'' ''Already processed''\<rparr>)"
proof (cases "truthy (js_get b ''timestamp'')")
  case False
  then show ?thesis
    using rate_limiting_marked [OF assms, of A] by (simp add: timestamp_validation_falsy)
next
  case True
  then obtain t where t: "js_get b ''timestamp'' = Some t"
    using truthy_Some by blast
  with True have tt: "truthy (Some t)" by simp
  show ?thesis
    using rate_limiting_marked [OF assms, of A]
    by (simp add: timestamp_validation_truthy [OF t tt] t split: option.split)
qed

lemma hmac_marked:
  assumes "processed s (idempotencyKey_of E b) \<noteq> None"
  shows "list_all (\<lambda>e. stage_of e \<le> 6) (trace (hmac_validation E A r b s)) \<and>
    (IsWebhookProcessed (idempotencyKey_of E b) \<in> set (trace (hmac_validation E A r b s)) \<longrightarrow>
     reply (hmac_validation E A r b s) =
       Inr \<lparr>status = 200, body = SkippedBody ''skipped'' ''Already processed''\<rparr>)"
  using timestamp_marked [OF assms, of A]
  by (simp add: hmac_validation_cases split: option.split)

lemma webhooks_marked:
  assumes "JSON_parse E (text_of r) = Some b"
    and "processed s (idempotencyKey_of E b) \<noteq> None"
  shows "list_all (\<lambda>e. stage_of e \<le> 6) (trace (webhooks E A r s))"
    and "IsWebhookProcessed (idempotencyKey_of E b) \<in> set (trace (webhooks E A r s)) \<Longrightarrow>
     reply (webhooks E A r s) =
       Inr \<lparr>status = 200, body = SkippedBody ''skipped'' ''Already processed''\<rparr>"
    and "\<not> forwarded (webhooks E A r s)"
    and "after (webhooks E A r s) = s"
proof -
  have m: "list_all (\<lambda>e. stage_of e \<le> 6) (trace (webhooks E A r s)) \<and>
    (IsWebhookProcessed (idempotencyKey_of E b) \<in> set (trace (webhooks E A r s)) \<longrightarrow>
     reply (webhooks E A r s) =
       Inr \<lparr>status = 200, body = SkippedBody ''skipped'' ''Already processed''\<rparr>)"
    using hmac_marked [OF assms(2), of A r] assms(1)
    by (simp add: webhooks_def Let_def split: sum.split bool.split)
  from m show "list_all (\<lambda>e. stage_of e \<le> 6) (trace (webhooks E A r s))" by blast
  from m show "reply (webhooks E A r s) =
       Inr \<lparr>status = 200, body = SkippedBody ''skipped'' ''Already processed''\<rparr>"
    if "IsWebhookProcessed (idempotencyKey_of E b) \<in> set (trace (webhooks E A r s))"
    using that by blast
  show nf: "\<not> forwarded (webhooks E A r s)"
    using webhooks_accepted(4) [OF assms(1), of A s] assms(2) by blast
  with webhooks_quiet [of E A r s] show "after (webhooks E A r s) = s" by blast
qed

lemma processed_kept:
  assumes "processed s k \<noteq> None"
  shows "processed (after (webhooks E A r s)) k \<noteq> None"
proof (cases "forwarded (webhooks E A r s)")
  case False
  with webhooks_quiet [of E A r s] assms show ?thesis by auto
next
  case True
  then obtain b where "JSON_parse E (text_of r) = Some b"
    using unparseable_never_forwarded [of E r A s] by (cases "JSON_parse E (text_of r)") auto
  from webhooks_accepted(7) [OF this True] assms show ?thesis
    by (simp add: accepted_state_def postMessage_def markWebhookProcessed_def)
qed

lemma processed_kept_run:
  "processed s k \<noteq> None \<Longrightarrow> processed (run E xs s) k \<noteq> None"
proof (induction xs arbitrary: s)
  case Nil
  then show ?case by simp
next
  case (Cons x xs)
  obtain A r where x: "x = (A, r)" by (cases x)
  from Cons.prems have "processed (after (webhooks E A r s)) k \<noteq> None"
    by (rule processed_kept)
  then show ?case
    by (simp add: x Cons.IH)
qed

lemma forwarded_marks:
  assumes "JSON_parse E (text_of r) = Some b" and "forwarded (webhooks E A r s)"
  shows "processed (after (webhooks E A r s)) (idempotencyKey_of E b) \<noteq> None"
  using webhooks_accepted(7) [OF assms]
  by (simp add: accepted_state_def postMessage_def markWebhookProcessed_def)

subsection \<open>Runs from the start of the process\<close>

lemma run_append: "run E (xs @ ys) s = run E ys (run E xs s)"
  by (induction xs arbitrary: s) auto

lemma rate_limit_reply_needs_tracker:
  "reply (webhooks E A r s) = Inr resp \<Longrightarrow> status resp = 429 \<Longrightarrow> 0 < lastProcessedTime s"
  by (auto simp: webhooks_def Let_def hmac_validation_cases timestamp_validation_def
      rate_limiting_def idempotency_check_def forward_to_worker_def
      split: option.splits sum.splits bool.splits if_splits)

lemma tracker_needs_forward:
  "0 < lastProcessedTime (run E pre initial) \<Longrightarrow>
   \<exists>pre1 A r pre2. pre = pre1 @ (A, r) # pre2 \<and> forwarded (webhooks E A r (run E pre1 initial))"
proof (induction pre rule: rev_induct)
  case Nil
  then show ?case by (simp add: initial_def)
next
  case (snoc x xs)
  obtain A r where x: "x = (A, r)" by (cases x)
  show ?case
  proof (cases "forwarded (webhooks E A r (run E xs initial))")
    case True
    then have "xs @ [x] = xs @ (A, r) # [] \<and> forwarded (webhooks E A r (run E xs initial))"
      by (simp add: x)
    then show ?thesis by blast
  next
    case False
    with webhooks_quiet [of E A r "run E xs initial"]
    have "after (webhooks E A r (run E xs initial)) = run E xs initial" by blast
    with snoc.prems have "0 < lastProcessedTime (run E xs initial)"
      by (simp add: run_append x)
    from snoc.IH [OF this] obtain pre1 A' r' pre2 where
      "xs = pre1 @ (A', r') # pre2" "forwarded (webhooks E A' r' (run E pre1 initial))"
      by blast
    then have "xs @ [x] = pre1 @ (A', r') # (pre2 @ [x]) \<and>
        forwarded (webhooks E A' r' (run E pre1 initial))"
      by simp
    then show ?thesis by blast
  qed
qed

section \<open>The claims\<close>

lemmas example_defs = example_env_def arriving_at_def signed_request_def request_signed_for_def example_parse_def
  example_hmac_def example_date_def secret_def notification_1_def notification_2_def
  notification_blank_def object_of_def

lemmas run_defs = webhooks_def hmac_validation_cases timestamp_validation_def rate_limiting_def
  idempotency_check_def forward_to_worker_def Let_def isPing_def expectedSignature_of_def
  template_def isWebhookProcessed_def markWebhookProcessed_def postMessage_def initial_def

text \<open>
  C1. For a request whose body parses and is not a ping: the handler forwards it only if
  a webhook configuration exists and the header \<^verbatim>\<open>x-airtable-content-mac\<close> is the string
  \<^verbatim>\<open>hmac-sha256=\<close> followed by \<^verbatim>\<open>calculateWebhookHmac\<close> of the current secret and the raw
  text of the request. With a configuration in place, a request with exactly this header
  passes step 4 (the handler goes on with the timestamp validation); with any other header
  it is answered 401, the state is unchanged and no call of a later stage is made; and a
  header computed for another body, whose hash differs from the hash of the received
  text, is answered 401 \<^verbatim>\<open>Invalid signature\<close>.
\<close>

theorem signature_must_match_received_bytes:
  assumes "JSON_parse E (text_of r) = Some b" and "isPing b = Inr False"
  shows "(forwarded (webhooks E A r s) \<longrightarrow>
       (\<exists>cfg. webhookConfig A = Some cfg \<and>
          x_airtable_content_mac r =
            Some (''hmac-sha256='' @ calculateWebhookHmac E (macSecretBase64 cfg) (text_of r)))) \<and>
     (\<forall>cfg. webhookConfig A = Some cfg \<longrightarrow>
        (x_airtable_content_mac r =
           Some (''hmac-sha256='' @ calculateWebhookHmac E (macSecretBase64 cfg) (text_of r)) \<longrightarrow>
         webhooks E A r s =
           emit [RequestText, JsonParse, IsPing, HeadersGet, GetWebhookConfig, CalculateWebhookHmac,
                 TimingSafeEqual]
             (timestamp_validation E A b s)) \<and>
        (x_airtable_content_mac r \<noteq>
           Some (''hmac-sha256='' @ calculateWebhookHmac E (macSecretBase64 cfg) (text_of r)) \<longrightarrow>
         (\<exists>msg. reply (webhooks E A r s) = Inr \<lparr>status = 401, body = ErrorBody msg\<rparr>) \<and>
         after (webhooks E A r s) = s \<and>
         list_all (\<lambda>e. stage_of e \<le> 3) (trace (webhooks E A r s))) \<and>
        (\<forall>other.
           x_airtable_content_mac r =
             Some (''hmac-sha256='' @ calculateWebhookHmac E (macSecretBase64 cfg) other) \<and>
           calculateWebhookHmac E (macSecretBase64 cfg) other \<noteq>
             calculateWebhookHmac E (macSecretBase64 cfg) (text_of r) \<longrightarrow>
           reply (webhooks E A r s) = Inr \<lparr>status = 401, body = ErrorBody ''Invalid signature''\<rparr>))"
proof (intro conjI allI impI)
  assume "forwarded (webhooks E A r s)"
  from webhooks_accepted(2) [OF assms(1) this]
  show "\<exists>cfg. webhookConfig A = Some cfg \<and>
      x_airtable_content_mac r =
        Some (''hmac-sha256='' @ calculateWebhookHmac E (macSecretBase64 cfg) (text_of r))"
    by (simp add: expectedSignature_of_def)
next
  fix cfg
  assume cfg: "webhookConfig A = Some cfg"
    and "x_airtable_content_mac r =
      Some (''hmac-sha256='' @ calculateWebhookHmac E (macSecretBase64 cfg) (text_of r))"
  then have "x_airtable_content_mac r = Some (expectedSignature_of E cfg r)"
    by (simp add: expectedSignature_of_def)
  from hmac_validation_signed [OF cfg this]
  show "webhooks E A r s =
      emit [RequestText, JsonParse, IsPing, HeadersGet, GetWebhookConfig, CalculateWebhookHmac,
            TimingSafeEqual]
        (timestamp_validation E A b s)"
    by (simp add: webhooks_not_ping [OF assms] emit_def)
next
  fix cfg
  assume cfg: "webhookConfig A = Some cfg"
    and "x_airtable_content_mac r \<noteq>
      Some (''hmac-sha256='' @ calculateWebhookHmac E (macSecretBase64 cfg) (text_of r))"
  then have ne: "x_airtable_content_mac r \<noteq> Some (expectedSignature_of E cfg r)"
    by (simp add: expectedSignature_of_def)
  note U = hmac_validation_unsigned [OF cfg ne, of b s]
  show "\<exists>msg. reply (webhooks E A r s) = Inr \<lparr>status = 401, body = ErrorBody msg\<rparr>"
    using U by (auto simp: webhooks_not_ping [OF assms])
  show "after (webhooks E A r s) = s"
    using U by (simp add: webhooks_not_ping [OF assms])
  show "list_all (\<lambda>e. stage_of e \<le> 3) (trace (webhooks E A r s))"
    using U by (simp add: webhooks_not_ping [OF assms] list_all_iff)
next
  fix cfg other
  assume cfg: "webhookConfig A = Some cfg"
    and o: "x_airtable_content_mac r =
        Some (''hmac-sha256='' @ calculateWebhookHmac E (macSecretBase64 cfg) other) \<and>
      calculateWebhookHmac E (macSecretBase64 cfg) other \<noteq>
        calculateWebhookHmac E (macSecretBase64 cfg) (text_of r)"
  then have ne: "x_airtable_content_mac r \<noteq> Some (expectedSignature_of E cfg r)"
    by (simp add: expectedSignature_of_def)
  from hmac_validation_unsigned [OF cfg ne, of b s] o
  show "reply (webhooks E A r s) = Inr \<lparr>status = 401, body = ErrorBody ''Invalid signature''\<rparr>"
    by (auto simp: webhooks_not_ping [OF assms])
qed

theorem signature_must_match_received_bytes_witness:
  "forwarded (webhooks example_env (arriving_at 1704067205000) (signed_request notification_1) initial) \<and>
   x_airtable_content_mac (signed_request notification_1) =
     Some (''hmac-sha256='' @ example_hmac secret notification_1) \<and>
   reply (webhooks example_env (arriving_at 1704067205000) (request_signed_for notification_2 notification_1)
     initial) = Inr \<lparr>status = 401, body = ErrorBody ''Invalid signature''\<rparr>"
proof -
  have p: "JSON_parse example_env (text_of (request_signed_for notification_2 notification_1)) =
      Some (object_of ''2024-01-01T00:00:00.000Z'')"
    by (simp add: example_defs)
  have np: "isPing (object_of ''2024-01-01T00:00:00.000Z'') = Inr False"
    by (simp add: isPing_obj object_of_def)
  have cfg: "webhookConfig (arriving_at 1704067205000) = Some \<lparr>macSecretBase64 = secret\<rparr>"
    by (simp add: arriving_at_def)
  have other: "x_airtable_content_mac (request_signed_for notification_2 notification_1) =
        Some (''hmac-sha256='' @
          calculateWebhookHmac example_env (macSecretBase64 \<lparr>macSecretBase64 = secret\<rparr>) notification_2) \<and>
      calculateWebhookHmac example_env (macSecretBase64 \<lparr>macSecretBase64 = secret\<rparr>) notification_2 \<noteq>
      calculateWebhookHmac example_env (macSecretBase64 \<lparr>macSecretBase64 = secret\<rparr>)
        (text_of (request_signed_for notification_2 notification_1))"
    by (simp add: example_defs)
  have "reply (webhooks example_env (arriving_at 1704067205000)
      (request_signed_for notification_2 notification_1) initial) =
      Inr \<lparr>status = 401, body = ErrorBody ''Invalid signature''\<rparr>"
    using signature_must_match_received_bytes [OF p np, of "arriving_at 1704067205000" initial]
      cfg other by blast
  moreover have "forwarded (webhooks example_env (arriving_at 1704067205000) (signed_request notification_1) initial)"
    by (simp add: forwarded_def run_defs example_defs)
  moreover have "x_airtable_content_mac (signed_request notification_1) =
      Some (''hmac-sha256='' @ example_hmac secret notification_1)"
    by (simp add: signed_request_def)
  ultimately show ?thesis by blast
qed

text \<open>
  C2, as the handler has it. Requests are handled one after the other. Once a
  notification has been forwarded, a later notification with the same webhook identifier
  and the same timestamp, whatever was handled in between, is never forwarded: its run
  makes no call of the forward stage, posts no message and leaves the state as it was.
  When it reaches the idempotency check it is acknowledged with
  \<^verbatim>\<open>{status: "skipped", reason: "Already processed"}\<close>; it reaches the check when it is no
  ping, carries the expected signature, has a timestamp that is missing, falsy or within
  the window, and is not turned down by the rate limit.
\<close>

theorem duplicate_is_not_forwarded_again:
  assumes "JSON_parse E (text_of r1) = Some b1" and "JSON_parse E (text_of r2) = Some b2"
    and "webhookId_of b1 = webhookId_of b2"
    and "js_get b1 ''timestamp'' = js_get b2 ''timestamp''"
    and "forwarded (webhooks E A1 r1 s)"
    and "s' = run E between (after (webhooks E A1 r1 s))"
  shows "\<not> forwarded (webhooks E A2 r2 s') \<and>
     list_all (\<lambda>e. stage_of e \<le> 6) (trace (webhooks E A2 r2 s')) \<and>
     after (webhooks E A2 r2 s') = s' \<and>
     posted (after (webhooks E A2 r2 s')) = posted s' \<and>
     (IsWebhookProcessed (idempotencyKey_of E b2) \<in> set (trace (webhooks E A2 r2 s')) \<longrightarrow>
        reply (webhooks E A2 r2 s') =
          Inr \<lparr>status = 200, body = SkippedBody ''skipped'' ''Already processed''\<rparr>) \<and>
     (isPing b2 = Inr False \<and>
      (\<exists>cfg. webhookConfig A2 = Some cfg \<and>
         x_airtable_content_mac r2 = Some (expectedSignature_of E cfg r2)) \<and>
      (\<forall>t. js_get b2 ''timestamp'' = Some t \<and> truthy (Some t) \<longrightarrow>
         (\<exists>wt. Date_getTime E t = Some wt \<and>
            \<bar>now_freshness A2 - wt\<bar> \<le> webhookTimestampWindow E * 1000)) \<and>
      \<not> (0 < lastProcessedTime s' \<and>
           now_ratelimit A2 - lastProcessedTime s' < webhookRateLimit E * 1000) \<longrightarrow>
        reply (webhooks E A2 r2 s') =
          Inr \<lparr>status = 200, body = SkippedBody ''skipped'' ''Already processed''\<rparr>)"
proof -
  have key: "idempotencyKey_of E b1 = idempotencyKey_of E b2"
    using assms(3,4) by (simp add: idempotencyKey_of_def)
  have "processed (after (webhooks E A1 r1 s)) (idempotencyKey_of E b1) \<noteq> None"
    by (rule forwarded_marks [OF assms(1,5)])
  then have m: "processed s' (idempotencyKey_of E b2) \<noteq> None"
    unfolding assms(6) key [symmetric] by (rule processed_kept_run)
  note M = webhooks_marked [OF assms(2) m, of A2]
  have skipped: "reply (webhooks E A2 r2 s') =
      Inr \<lparr>status = 200, body = SkippedBody ''skipped'' ''Already processed''\<rparr>"
    if np: "isPing b2 = Inr False"
      and sig: "\<exists>cfg. webhookConfig A2 = Some cfg \<and>
         x_airtable_content_mac r2 = Some (expectedSignature_of E cfg r2)"
      and fresh: "\<forall>t. js_get b2 ''timestamp'' = Some t \<and> truthy (Some t) \<longrightarrow>
         (\<exists>wt. Date_getTime E t = Some wt \<and>
            \<bar>now_freshness A2 - wt\<bar> \<le> webhookTimestampWindow E * 1000)"
      and nl: "\<not> (0 < lastProcessedTime s' \<and>
           now_ratelimit A2 - lastProcessedTime s' < webhookRateLimit E * 1000)"
  proof -
    from sig obtain cfg where cfg: "webhookConfig A2 = Some cfg"
      and h: "x_airtable_content_mac r2 = Some (expectedSignature_of E cfg r2)"
      by blast
    have 1: "webhooks E A2 r2 s' =
        emit [RequestText, JsonParse, IsPing, HeadersGet, GetWebhookConfig, CalculateWebhookHmac,
              TimingSafeEqual]
          (timestamp_validation E A2 b2 s')"
      by (rule webhooks_signed [OF assms(2) np cfg h])
    have 2: "timestamp_validation E A2 b2 s' =
        emit (if truthy (js_get b2 ''timestamp'') then [DateNowFreshness] else [])
          (rate_limiting E A2 b2 (js_get b2 ''timestamp'') s')"
      by (rule timestamp_validation_passes) (use fresh in blast)
    have 3: "rate_limiting E A2 b2 (js_get b2 ''timestamp'') s' =
        emit [DateNowRateLimit] (idempotency_check E A2 b2 (js_get b2 ''timestamp'') s')"
      by (rule rate_limiting_not_limited [OF nl])
    show ?thesis
      by (simp add: 1 2 3 idempotency_marked [OF m])
  qed
  show ?thesis
    using M skipped by simp
qed

theorem duplicate_is_not_forwarded_again_witness:
  "forwarded (webhooks example_env (arriving_at 1704067205000) (signed_request notification_1) initial) \<and>
   reply (webhooks example_env (arriving_at 1704067206000) (signed_request notification_1)
      (after (webhooks example_env (arriving_at 1704067205000) (signed_request notification_1) initial))) =
     Inr \<lparr>status = 200, body = SkippedBody ''skipped'' ''Already processed''\<rparr> \<and>
   posted (after (webhooks example_env (arriving_at 1704067206000) (signed_request notification_1)
      (after (webhooks example_env (arriving_at 1704067205000) (signed_request notification_1) initial)))) =
     [WEBHOOK_RECEIVED (object_of ''2024-01-01T00:00:00.000Z'')]"
proof -
  let ?s = "after (webhooks example_env (arriving_at 1704067205000) (signed_request notification_1) initial)"
  have p: "JSON_parse example_env (text_of (signed_request notification_1)) =
      Some (object_of ''2024-01-01T00:00:00.000Z'')"
    by (simp add: example_defs)
  have f: "forwarded (webhooks example_env (arriving_at 1704067205000) (signed_request notification_1) initial)"
    by (simp add: forwarded_def run_defs example_defs)
  have s: "?s = run example_env [] ?s"
    by simp
  have posted: "posted ?s = [WEBHOOK_RECEIVED (object_of ''2024-01-01T00:00:00.000Z'')]"
    by (simp add: run_defs example_defs)
  have r: "reply (webhooks example_env (arriving_at 1704067206000) (signed_request notification_1) ?s) =
      Inr \<lparr>status = 200, body = SkippedBody ''skipped'' ''Already processed''\<rparr>"
    by (simp add: run_defs example_defs)
  have "posted (after (webhooks example_env (arriving_at 1704067206000) (signed_request notification_1) ?s)) =
      posted ?s"
    using duplicate_is_not_forwarded_again [OF p p refl refl f s, of "arriving_at 1704067206000"]
    by blast
  with f r posted show ?thesis by simp
qed

text \<open>
  The claim as it was stated fails when an earlier stage turns the duplicate down: a
  notification is forwarded at the millisecond 1704067205000 and the same notification
  arrives again 50 ms later, the rate limit being one second. The reply is 429 and not the
  acknowledgement of a duplicate; the idempotency check is not reached.
\<close>

theorem duplicate_inside_rate_limit_is_answered_429:
  "forwarded (webhooks example_env (arriving_at 1704067205000) (signed_request notification_1) initial) \<and>
   webhooks example_env (arriving_at 1704067205050) (signed_request notification_1)
      (after (webhooks example_env (arriving_at 1704067205000) (signed_request notification_1) initial)) =
     \<lparr>reply = Inr \<lparr>status = 429, body = RateLimitBody ''Rate limit exceeded'' 1\<rparr>,
      after = after (webhooks example_env (arriving_at 1704067205000) (signed_request notification_1) initial),
      trace = [RequestText, JsonParse, IsPing, HeadersGet, GetWebhookConfig, CalculateWebhookHmac,
               TimingSafeEqual, DateNowFreshness, DateNowRateLimit]\<rparr> \<and>
   reply (webhooks example_env (arriving_at 1704067205050) (signed_request notification_1)
      (after (webhooks example_env (arriving_at 1704067205000) (signed_request notification_1) initial))) \<noteq>
     Inr \<lparr>status = 200, body = SkippedBody ''skipped'' ''Already processed''\<rparr>"
  by (simp add: forwarded_def run_defs example_defs ceil_seconds_div emit_def respond_def)

text \<open>
  C3. The comparison of step 4 at a header whose length differs from the length of the
  expected signature: the handler answers 401 \<^verbatim>\<open>Invalid signature\<close> after computing the
  hash and without calling \<^verbatim>\<open>timingSafeEqual\<close>, so the constant-time comparison is
  skipped on a length difference.
\<close>

theorem length_mismatch_skips_timingSafeEqual:
  "webhooks example_env (arriving_at 1704067205000)
     \<lparr>text_of = notification_1, x_airtable_content_mac = Some ''hmac-sha256=''\<rparr> initial =
   \<lparr>reply = Inr \<lparr>status = 401, body = ErrorBody ''Invalid signature''\<rparr>, after = initial,
    trace = [RequestText, JsonParse, IsPing, HeadersGet, GetWebhookConfig, CalculateWebhookHmac]\<rparr>"
  by (simp add: webhooks_def hmac_validation_def isPing_def Let_def emit_def respond_def
      example_defs)

text \<open>
  C4. In every run of the handler the calls are made in the order of the stages: parse,
  probe detection, signature, freshness, rate limiting, idempotency, forward. A stage that
  turns the request down ends the run: when the reply is the rejection of stage \<open>j\<close>, no
  call of a later stage has been made and the state is as it was. A body that does not
  parse is answered 400 after \<^verbatim>\<open>request.text()\<close> and \<^verbatim>\<open>JSON.parse\<close> alone, the state
  (the ledger of markers in it) unchanged. A run that forwards has gone through every
  stage, the freshness stage reading the clock when the timestamp is truthy.
\<close>

theorem stages_run_in_order_and_short_circuit:
  "sorted (map stage_of (trace (webhooks E A r s))) \<and>
   (\<forall>resp j. reply (webhooks E A r s) = Inr resp \<and> rejecting_stage resp = Some j \<longrightarrow>
      list_all (\<lambda>e. stage_of e \<le> j) (trace (webhooks E A r s)) \<and> after (webhooks E A r s) = s) \<and>
   (JSON_parse E (text_of r) = None \<longrightarrow>
      webhooks E A r s =
        \<lparr>reply = Inr \<lparr>status = 400, body = ErrorBody ''Invalid JSON payload''\<rparr>, after = s,
         trace = [RequestText, JsonParse]\<rparr>) \<and>
   (forwarded (webhooks E A r s) \<longrightarrow>
      (\<exists>b. JSON_parse E (text_of r) = Some b \<and>
         trace (webhooks E A r s) =
           [RequestText, JsonParse, IsPing, HeadersGet, GetWebhookConfig, CalculateWebhookHmac,
            TimingSafeEqual]
           @ (if truthy (js_get b ''timestamp'') then [DateNowFreshness] else [])
           @ [DateNowRateLimit, IsWebhookProcessed (idempotencyKey_of E b), StoreWorker,
              SetLastProcessedTime (now_accept A), MarkWebhookProcessed (idempotencyKey_of E b),
              PostMessage (WEBHOOK_RECEIVED b)]))"
proof (intro conjI allI impI)
  show "sorted (map stage_of (trace (webhooks E A r s)))"
    using webhooks_order [of E A r s] by (simp add: in_order_from_def)
next
  fix resp j
  assume h: "reply (webhooks E A r s) = Inr resp \<and> rejecting_stage resp = Some j"
  with webhooks_short [of E A r s]
  show "list_all (\<lambda>e. stage_of e \<le> j) (trace (webhooks E A r s))"
    by (simp add: short_circuits_def)
  have "\<not> forwarded (webhooks E A r s)"
  proof
    assume f: "forwarded (webhooks E A r s)"
    then obtain b where "JSON_parse E (text_of r) = Some b"
      using unparseable_never_forwarded [of E r A s] by (cases "JSON_parse E (text_of r)") auto
    from webhooks_accepted(6) [OF this f] h show False
      by (simp add: rejecting_stage_def)
  qed
  with webhooks_quiet [of E A r s] show "after (webhooks E A r s) = s"
    by blast
next
  assume "JSON_parse E (text_of r) = None"
  then show "webhooks E A r s =
      \<lparr>reply = Inr \<lparr>status = 400, body = ErrorBody ''Invalid JSON payload''\<rparr>, after = s,
       trace = [RequestText, JsonParse]\<rparr>"
    by (simp add: webhooks_def emit_def respond_def)
next
  assume f: "forwarded (webhooks E A r s)"
  then obtain b where b: "JSON_parse E (text_of r) = Some b"
    using unparseable_never_forwarded [of E r A s] by (cases "JSON_parse E (text_of r)") auto
  from webhooks_accepted(8) [OF b f] b
  show "\<exists>b. JSON_parse E (text_of r) = Some b \<and>
      trace (webhooks E A r s) =
        [RequestText, JsonParse, IsPing, HeadersGet, GetWebhookConfig, CalculateWebhookHmac,
         TimingSafeEqual]
        @ (if truthy (js_get b ''timestamp'') then [DateNowFreshness] else [])
        @ [DateNowRateLimit, IsWebhookProcessed (idempotencyKey_of E b), StoreWorker,
           SetLastProcessedTime (now_accept A), MarkWebhookProcessed (idempotencyKey_of E b),
           PostMessage (WEBHOOK_RECEIVED b)]"
    by blast
qed

theorem stages_run_in_order_and_short_circuit_witness:
  "JSON_parse example_env ''{not json'' = None \<and>
   webhooks example_env (arriving_at 1704067205000)
     \<lparr>text_of = ''{not json'', x_airtable_content_mac = None\<rparr> initial =
     \<lparr>reply = Inr \<lparr>status = 400, body = ErrorBody ''Invalid JSON payload''\<rparr>, after = initial,
      trace = [RequestText, JsonParse]\<rparr> \<and>
   rejecting_stage \<lparr>status = 400, body = ErrorBody ''Invalid JSON payload''\<rparr> = Some 1 \<and>
   sorted (map stage_of (trace (webhooks example_env (arriving_at 1704067205000)
     (signed_request notification_1) initial)))"
proof -
  have p: "JSON_parse example_env (text_of \<lparr>text_of = ''{not json'', x_airtable_content_mac = None\<rparr>) = None"
    by (simp add: example_defs)
  have "webhooks example_env (arriving_at 1704067205000)
      \<lparr>text_of = ''{not json'', x_airtable_content_mac = None\<rparr> initial =
      \<lparr>reply = Inr \<lparr>status = 400, body = ErrorBody ''Invalid JSON payload''\<rparr>, after = initial,
       trace = [RequestText, JsonParse]\<rparr>"
    using stages_run_in_order_and_short_circuit [of example_env "arriving_at 1704067205000"
        "\<lparr>text_of = ''{not json'', x_airtable_content_mac = None\<rparr>" initial] p
    by blast
  moreover have "sorted (map stage_of (trace (webhooks example_env (arriving_at 1704067205000)
      (signed_request notification_1) initial)))"
    using stages_run_in_order_and_short_circuit [of example_env "arriving_at 1704067205000"
        "signed_request notification_1" initial]
    by blast
  moreover have "rejecting_stage \<lparr>status = 400, body = ErrorBody ''Invalid JSON payload''\<rparr> = Some 1"
    by (simp add: rejecting_stage_def)
  moreover have "JSON_parse example_env ''{not json'' = None"
    by (simp add: example_defs)
  ultimately show ?thesis by blast
qed

text \<open>
  C5. In every run that forwards a notification, the last two calls are
  \<^verbatim>\<open>markWebhookProcessed\<close> for the idempotency key of the body and then
  \<^verbatim>\<open>worker.postMessage\<close>, and no message is posted before them: the message goes to the
  worker from a state whose ledger already holds the marker of the key, and that state has
  the messages posted so far and no other.
\<close>

theorem marked_before_forwarded:
  assumes "JSON_parse E (text_of r) = Some b" and "forwarded (webhooks E A r s)"
  shows "\<exists>before marked.
     trace (webhooks E A r s) =
       before @ [MarkWebhookProcessed (idempotencyKey_of E b), PostMessage (WEBHOOK_RECEIVED b)] \<and>
     \<not> list_ex is_post before \<and>
     after (webhooks E A r s) = postMessage (WEBHOOK_RECEIVED b) marked \<and>
     isWebhookProcessed marked (idempotencyKey_of E b) \<and>
     posted marked = posted s \<and>
     \<not> isWebhookProcessed s (idempotencyKey_of E b)"
proof -
  let ?marked = "markWebhookProcessed (idempotencyKey_of E b) ''incremental''
      (js_get b ''timestamp'') (webhookId_of b) (s\<lparr>lastProcessedTime := now_accept A\<rparr>)"
  let ?before = "[RequestText, JsonParse, IsPing, HeadersGet, GetWebhookConfig,
      CalculateWebhookHmac, TimingSafeEqual]
    @ (if truthy (js_get b ''timestamp'') then [DateNowFreshness] else [])
    @ [DateNowRateLimit, IsWebhookProcessed (idempotencyKey_of E b), StoreWorker,
       SetLastProcessedTime (now_accept A)]"
  note W = webhooks_accepted [OF assms]
  have "trace (webhooks E A r s) =
      ?before @ [MarkWebhookProcessed (idempotencyKey_of E b), PostMessage (WEBHOOK_RECEIVED b)]"
    using W(8) by simp
  moreover have "\<not> list_ex is_post ?before" by simp
  moreover have "after (webhooks E A r s) = postMessage (WEBHOOK_RECEIVED b) ?marked"
    using W(7) by (simp add: accepted_state_def)
  moreover have "isWebhookProcessed ?marked (idempotencyKey_of E b)"
    by (simp add: isWebhookProcessed_def markWebhookProcessed_def)
  moreover have "posted ?marked = posted s"
    by (simp add: markWebhookProcessed_def)
  moreover have "\<not> isWebhookProcessed s (idempotencyKey_of E b)"
    using W(4) by (simp add: isWebhookProcessed_def)
  ultimately show ?thesis by blast
qed

theorem marked_before_forwarded_witness:
  "forwarded (webhooks example_env (arriving_at 1704067205000) (signed_request notification_1) initial) \<and>
   idempotencyKey_of example_env (object_of ''2024-01-01T00:00:00.000Z'') =
     ''ach1:2024-01-01T00:00:00.000Z'' \<and>
   (\<exists>before marked.
      trace (webhooks example_env (arriving_at 1704067205000) (signed_request notification_1) initial) =
        before @ [MarkWebhookProcessed ''ach1:2024-01-01T00:00:00.000Z'',
                  PostMessage (WEBHOOK_RECEIVED (object_of ''2024-01-01T00:00:00.000Z''))] \<and>
      after (webhooks example_env (arriving_at 1704067205000) (signed_request notification_1) initial) =
        postMessage (WEBHOOK_RECEIVED (object_of ''2024-01-01T00:00:00.000Z'')) marked \<and>
      isWebhookProcessed marked ''ach1:2024-01-01T00:00:00.000Z'')"
proof -
  have p: "JSON_parse example_env (text_of (signed_request notification_1)) =
      Some (object_of ''2024-01-01T00:00:00.000Z'')"
    by (simp add: example_defs)
  have f: "forwarded (webhooks example_env (arriving_at 1704067205000) (signed_request notification_1) initial)"
    by (simp add: forwarded_def run_defs example_defs)
  have k: "idempotencyKey_of example_env (object_of ''2024-01-01T00:00:00.000Z'') =
      ''ach1:2024-01-01T00:00:00.000Z''"
    by (simp add: idempotencyKey_of_def webhookId_of_def template_def object_of_def example_env_def)
  show ?thesis
    using marked_before_forwarded [OF p f] f k by (simp only:) blast
qed

text \<open>
  C6. A body that parses to a value with none of the keys \<^verbatim>\<open>base\<close>, \<^verbatim>\<open>webhook\<close> and
  \<^verbatim>\<open>timestamp\<close> (\<^verbatim>\<open>key in body\<close> is false for each of them: an object without them, or
  an array) is a ping: whatever the signature header, the webhook configuration, the
  clock and the state are, the handler answers 200 with \<^verbatim>\<open>{status: "success"}\<close>, leaves
  the state as it was, and has made no call after \<^verbatim>\<open>isPing\<close>: it has not read the
  header, fetched the secret, computed a hash, compared a signature, read the clock or
  looked into the ledger.
\<close>

theorem ping_acknowledged_without_checks:
  assumes "JSON_parse E (text_of r) = Some b"
    and "js_in ''base'' b = Inr False"
    and "js_in ''webhook'' b = Inr False"
    and "js_in ''timestamp'' b = Inr False"
  shows "webhooks E A r s =
    \<lparr>reply = Inr \<lparr>status = 200, body = StatusBody ''success''\<rparr>, after = s,
     trace = [RequestText, JsonParse, IsPing]\<rparr>"
  using assms by (simp add: webhooks_def isPing_def emit_def respond_def)

theorem ping_acknowledged_without_checks_witness:
  "JSON_parse example_env ''{}'' = Some (JObj []) \<and>
   js_in ''base'' (JObj []) = Inr False \<and>
   webhooks example_env (arriving_at 1704067205000)
     \<lparr>text_of = ''{}'', x_airtable_content_mac = None\<rparr> initial =
    \<lparr>reply = Inr \<lparr>status = 200, body = StatusBody ''success''\<rparr>, after = initial,
     trace = [RequestText, JsonParse, IsPing]\<rparr>"
  using ping_acknowledged_without_checks [of example_env
      "\<lparr>text_of = ''{}'', x_airtable_content_mac = None\<rparr>" "JObj []" "arriving_at 1704067205000" initial]
  by (simp add: example_env_def example_parse_def)

text \<open>
  C7, as the handler has it. For a request that reaches step 5 (its body parses, is not
  a ping and carries the expected signature): when the timestamp of the body is truthy
  and either is no date (\<^verbatim>\<open>getTime()\<close> is NaN) or lies further than
  \<^verbatim>\<open>webhookTimestampWindow\<close> seconds from the clock, the handler answers 401
  \<^verbatim>\<open>Expired timestamp\<close> and leaves the state as it was; when the timestamp is truthy and
  within the window, and when it is missing or falsy (\<^verbatim>\<open>null\<close>, \<^verbatim>\<open>false\<close>, \<^verbatim>\<open>0\<close> or the
  empty string), the handler goes on with the rate limiting.
\<close>

theorem truthy_timestamp_must_be_fresh:
  assumes "JSON_parse E (text_of r) = Some b" and "isPing b = Inr False"
    and "webhookConfig A = Some cfg"
    and "x_airtable_content_mac r = Some (expectedSignature_of E cfg r)"
  shows "(\<forall>t. js_get b ''timestamp'' = Some t \<and> truthy (Some t) \<and>
          (Date_getTime E t = None \<or>
           (\<exists>wt. Date_getTime E t = Some wt \<and>
              \<bar>now_freshness A - wt\<bar> > webhookTimestampWindow E * 1000)) \<longrightarrow>
        webhooks E A r s =
          \<lparr>reply = Inr \<lparr>status = 401, body = ErrorBody ''Expired timestamp''\<rparr>, after = s,
           trace = [RequestText, JsonParse, IsPing, HeadersGet, GetWebhookConfig,
                    CalculateWebhookHmac, TimingSafeEqual, DateNowFreshness]\<rparr>) \<and>
     (\<forall>t wt. js_get b ''timestamp'' = Some t \<and> truthy (Some t) \<and> Date_getTime E t = Some wt \<and>
          \<bar>now_freshness A - wt\<bar> \<le> webhookTimestampWindow E * 1000 \<longrightarrow>
        webhooks E A r s =
          emit [RequestText, JsonParse, IsPing, HeadersGet, GetWebhookConfig,
                CalculateWebhookHmac, TimingSafeEqual, DateNowFreshness]
            (rate_limiting E A b (Some t) s)) \<and>
     (\<not> truthy (js_get b ''timestamp'') \<longrightarrow>
        webhooks E A r s =
          emit [RequestText, JsonParse, IsPing, HeadersGet, GetWebhookConfig,
                CalculateWebhookHmac, TimingSafeEqual]
            (rate_limiting E A b (js_get b ''timestamp'') s))"
proof (intro conjI allI impI)
  fix t
  assume h: "js_get b ''timestamp'' = Some t \<and> truthy (Some t) \<and>
      (Date_getTime E t = None \<or>
       (\<exists>wt. Date_getTime E t = Some wt \<and>
          \<bar>now_freshness A - wt\<bar> > webhookTimestampWindow E * 1000))"
  then have t: "js_get b ''timestamp'' = Some t" and tt: "truthy (Some t)"
    by simp_all
  from h have "timestamp_validation E A b s =
      emit [DateNowFreshness] (respond 401 (ErrorBody ''Expired timestamp'') s)"
    by (auto simp: timestamp_validation_truthy [OF t tt])
  then show "webhooks E A r s =
      \<lparr>reply = Inr \<lparr>status = 401, body = ErrorBody ''Expired timestamp''\<rparr>, after = s,
       trace = [RequestText, JsonParse, IsPing, HeadersGet, GetWebhookConfig,
                CalculateWebhookHmac, TimingSafeEqual, DateNowFreshness]\<rparr>"
    by (simp add: webhooks_signed [OF assms] emit_def respond_def)
next
  fix t wt
  assume h: "js_get b ''timestamp'' = Some t \<and> truthy (Some t) \<and> Date_getTime E t = Some wt \<and>
      \<bar>now_freshness A - wt\<bar> \<le> webhookTimestampWindow E * 1000"
  then have t: "js_get b ''timestamp'' = Some t" and tt: "truthy (Some t)"
    by simp_all
  from h have "timestamp_validation E A b s =
      emit [DateNowFreshness] (rate_limiting E A b (Some t) s)"
    by (simp add: timestamp_validation_truthy [OF t tt])
  then show "webhooks E A r s =
      emit [RequestText, JsonParse, IsPing, HeadersGet, GetWebhookConfig,
            CalculateWebhookHmac, TimingSafeEqual, DateNowFreshness]
        (rate_limiting E A b (Some t) s)"
    by (simp add: webhooks_signed [OF assms] emit_def)
next
  assume "\<not> truthy (js_get b ''timestamp'')"
  then show "webhooks E A r s =
      emit [RequestText, JsonParse, IsPing, HeadersGet, GetWebhookConfig,
            CalculateWebhookHmac, TimingSafeEqual]
        (rate_limiting E A b (js_get b ''timestamp'') s)"
    by (simp add: webhooks_signed [OF assms] timestamp_validation_falsy)
qed

theorem truthy_timestamp_must_be_fresh_witness:
  "webhooks example_env (arriving_at 1704070800000) (signed_request notification_1) initial =
     \<lparr>reply = Inr \<lparr>status = 401, body = ErrorBody ''Expired timestamp''\<rparr>, after = initial,
      trace = [RequestText, JsonParse, IsPing, HeadersGet, GetWebhookConfig,
               CalculateWebhookHmac, TimingSafeEqual, DateNowFreshness]\<rparr> \<and>
   \<bar>now_freshness (arriving_at 1704070800000) - 1704067200000\<bar> >
     webhookTimestampWindow example_env * 1000"
proof -
  have p: "JSON_parse example_env (text_of (signed_request notification_1)) =
      Some (object_of ''2024-01-01T00:00:00.000Z'')"
    by (simp add: example_defs)
  have np: "isPing (object_of ''2024-01-01T00:00:00.000Z'') = Inr False"
    by (simp add: isPing_obj object_of_def)
  have cfg: "webhookConfig (arriving_at 1704070800000) = Some \<lparr>macSecretBase64 = secret\<rparr>"
    by (simp add: arriving_at_def)
  have sig: "x_airtable_content_mac (signed_request notification_1) =
      Some (expectedSignature_of example_env \<lparr>macSecretBase64 = secret\<rparr> (signed_request notification_1))"
    by (simp add: expectedSignature_of_def signed_request_def example_env_def)
  have stale: "\<bar>now_freshness (arriving_at 1704070800000) - 1704067200000\<bar> >
      webhookTimestampWindow example_env * 1000"
    by (simp add: arriving_at_def example_env_def)
  have ts: "js_get (object_of ''2024-01-01T00:00:00.000Z'') ''timestamp'' =
        Some (JStr ''2024-01-01T00:00:00.000Z'') \<and>
      truthy (Some (JStr ''2024-01-01T00:00:00.000Z'')) \<and>
      (Date_getTime example_env (JStr ''2024-01-01T00:00:00.000Z'') = None \<or>
       (\<exists>wt. Date_getTime example_env (JStr ''2024-01-01T00:00:00.000Z'') = Some wt \<and>
          \<bar>now_freshness (arriving_at 1704070800000) - wt\<bar> >
            webhookTimestampWindow example_env * 1000))"
    by (simp add: object_of_def example_env_def example_date_def arriving_at_def)
  show ?thesis
    using truthy_timestamp_must_be_fresh [OF p np cfg sig, of initial] ts stale by blast
qed

text \<open>
  The claim as it was stated fails at a body whose timestamp is the empty string: the
  envelope carries it, it is no date, and the request is forwarded all the same.
\<close>

theorem empty_timestamp_is_not_checked:
  "JSON_parse example_env notification_blank = Some (object_of []) \<and>
   js_get (object_of []) ''timestamp'' = Some (JStr []) \<and>
   Date_getTime example_env (JStr []) = None \<and>
   reply (webhooks example_env (arriving_at 1704067205000) (signed_request notification_blank) initial) =
     Inr \<lparr>status = 200, body = StatusBody ''success''\<rparr> \<and>
   posted (after (webhooks example_env (arriving_at 1704067205000) (signed_request notification_blank) initial)) =
     [WEBHOOK_RECEIVED (object_of [])]"
  by (simp add: run_defs example_defs)

text \<open>
  C8. Every rejection leaves the state as it was. When the handler replies with the
  response of a rejection (400 malformed, 401 unauthorized, 500 not configured, 429 rate
  limited, the acknowledgement of a duplicate, 503 worker unavailable), the state after
  the run is the state before it: no marker is written, \<^verbatim>\<open>lastProcessedTime\<close> is not
  advanced, no message is posted, and the run has made none of the three calls that
  change the state. The state changes only in a run that forwards, and the handler
  leaves without a response only on the TypeError of a body that is no object.
\<close>

theorem rejections_change_nothing:
  "(\<forall>resp j. reply (webhooks E A r s) = Inr resp \<and> rejecting_stage resp = Some j \<longrightarrow>
      after (webhooks E A r s) = s \<and>
      processed (after (webhooks E A r s)) = processed s \<and>
      lastProcessedTime (after (webhooks E A r s)) = lastProcessedTime s \<and>
      posted (after (webhooks E A r s)) = posted s \<and>
      \<not> list_ex is_effect (trace (webhooks E A r s))) \<and>
   (after (webhooks E A r s) \<noteq> s \<longrightarrow> forwarded (webhooks E A r s)) \<and>
   (\<forall>e. reply (webhooks E A r s) = Inl e \<longrightarrow>
      (\<exists>b. JSON_parse E (text_of r) = Some b \<and> isPing b = Inl e))"
proof (intro conjI allI impI)
  fix resp j
  assume h: "reply (webhooks E A r s) = Inr resp \<and> rejecting_stage resp = Some j"
  have "\<not> forwarded (webhooks E A r s)"
  proof
    assume f: "forwarded (webhooks E A r s)"
    then obtain b where "JSON_parse E (text_of r) = Some b"
      using unparseable_never_forwarded [of E r A s] by (cases "JSON_parse E (text_of r)") auto
    from webhooks_accepted(6) [OF this f] h show False
      by (simp add: rejecting_stage_def)
  qed
  with webhooks_quiet [of E A r s]
  have q: "after (webhooks E A r s) = s \<and> \<not> list_ex is_effect (trace (webhooks E A r s))"
    by blast
  then show "after (webhooks E A r s) = s"
    and "processed (after (webhooks E A r s)) = processed s"
    and "lastProcessedTime (after (webhooks E A r s)) = lastProcessedTime s"
    and "posted (after (webhooks E A r s)) = posted s"
    and "\<not> list_ex is_effect (trace (webhooks E A r s))"
    by simp_all
next
  assume "after (webhooks E A r s) \<noteq> s"
  with webhooks_quiet [of E A r s] show "forwarded (webhooks E A r s)"
    by blast
next
  fix e
  assume "reply (webhooks E A r s) = Inl e"
  then show "\<exists>b. JSON_parse E (text_of r) = Some b \<and> isPing b = Inl e"
    by (rule webhooks_throws_only_on_non_objects)
qed

theorem rejections_change_nothing_witness:
  "reply (webhooks example_env ((arriving_at 1704067205000)\<lparr>worker_present := False\<rparr>)
      (signed_request notification_1) initial) =
     Inr \<lparr>status = 503, body = ErrorBody ''Worker service unavailable''\<rparr> \<and>
   rejecting_stage \<lparr>status = 503, body = ErrorBody ''Worker service unavailable''\<rparr> = Some 7 \<and>
   after (webhooks example_env ((arriving_at 1704067205000)\<lparr>worker_present := False\<rparr>)
      (signed_request notification_1) initial) = initial"
proof -
  have r: "reply (webhooks example_env ((arriving_at 1704067205000)\<lparr>worker_present := False\<rparr>)
      (signed_request notification_1) initial) =
      Inr \<lparr>status = 503, body = ErrorBody ''Worker service unavailable''\<rparr>"
    by (simp add: run_defs example_defs)
  have j: "rejecting_stage \<lparr>status = 503, body = ErrorBody ''Worker service unavailable''\<rparr> = Some 7"
    by (simp add: rejecting_stage_def)
  show ?thesis
    using rejections_change_nothing [of example_env
        "(arriving_at 1704067205000)\<lparr>worker_present := False\<rparr>" "signed_request notification_1" initial]
      r j by blast
qed

text \<open>
  C9, as the handler has it. For a request that reaches step 6 (its body parses, is not
  a ping, carries the expected signature and a timestamp that is missing, falsy or within
  the window): when \<^verbatim>\<open>lastProcessedTime\<close> is positive and the clock is less than
  \<^verbatim>\<open>webhookRateLimit\<close> seconds after it, the handler answers 429 with
  \<^verbatim>\<open>retryAfter = Math.ceil(remaining / 1000)\<close>, the remaining milliseconds rounded up to
  whole seconds, and leaves the state as it was.
\<close>

theorem rate_limited_retry_after_in_seconds:
  assumes "JSON_parse E (text_of r) = Some b" and "isPing b = Inr False"
    and "webhookConfig A = Some cfg"
    and "x_airtable_content_mac r = Some (expectedSignature_of E cfg r)"
    and "\<And>t. js_get b ''timestamp'' = Some t \<Longrightarrow> truthy (Some t) \<Longrightarrow>
      \<exists>wt. Date_getTime E t = Some wt \<and> \<bar>now_freshness A - wt\<bar> \<le> webhookTimestampWindow E * 1000"
    and "0 < lastProcessedTime s"
    and "now_ratelimit A < lastProcessedTime s + webhookRateLimit E * 1000"
  shows "\<exists>retryAfter.
     reply (webhooks E A r s) =
       Inr \<lparr>status = 429, body = RateLimitBody ''Rate limit exceeded'' retryAfter\<rparr> \<and>
     retryAfter = ceil_seconds (lastProcessedTime s + webhookRateLimit E * 1000 - now_ratelimit A) \<and>
     1000 * (retryAfter - 1) < lastProcessedTime s + webhookRateLimit E * 1000 - now_ratelimit A \<and>
     lastProcessedTime s + webhookRateLimit E * 1000 - now_ratelimit A \<le> 1000 * retryAfter \<and>
     1 \<le> retryAfter \<and>
     after (webhooks E A r s) = s \<and>
     \<not> forwarded (webhooks E A r s)"
proof -
  let ?remaining = "lastProcessedTime s + webhookRateLimit E * 1000 - now_ratelimit A"
  have lim: "now_ratelimit A - lastProcessedTime s < webhookRateLimit E * 1000"
    using assms(7) by simp
  have rem: "webhookRateLimit E * 1000 - (now_ratelimit A - lastProcessedTime s) = ?remaining"
    by simp
  have 1: "webhooks E A r s =
      emit [RequestText, JsonParse, IsPing, HeadersGet, GetWebhookConfig, CalculateWebhookHmac,
            TimingSafeEqual]
        (timestamp_validation E A b s)"
    by (rule webhooks_signed [OF assms(1-4)])
  have 2: "timestamp_validation E A b s =
      emit (if truthy (js_get b ''timestamp'') then [DateNowFreshness] else [])
        (rate_limiting E A b (js_get b ''timestamp'') s)"
    by (rule timestamp_validation_passes) (rule assms(5))
  have 3: "rate_limiting E A b (js_get b ''timestamp'') s =
      emit [DateNowRateLimit]
        (respond 429 (RateLimitBody ''Rate limit exceeded'' (ceil_seconds ?remaining)) s)"
    using rate_limiting_limited [OF assms(6) lim] by (simp only: rem)
  have eq: "webhooks E A r s =
      emit [RequestText, JsonParse, IsPing, HeadersGet, GetWebhookConfig, CalculateWebhookHmac,
            TimingSafeEqual]
        (emit (if truthy (js_get b ''timestamp'') then [DateNowFreshness] else [])
          (emit [DateNowRateLimit]
            (respond 429 (RateLimitBody ''Rate limit exceeded'' (ceil_seconds ?remaining)) s)))"
    by (simp only: 1 2 3)
  have pos: "0 < ?remaining" using assms(7) by simp
  have b: "1000 * (ceil_seconds ?remaining - 1) < ?remaining \<and> ?remaining \<le> 1000 * ceil_seconds ?remaining"
    by (rule ceil_seconds_bounds)
  then have "1 \<le> ceil_seconds ?remaining" using pos by linarith
  with b show ?thesis
    by (simp add: eq forwarded_def)
qed

theorem rate_limited_retry_after_in_seconds_witness:
  "reply (webhooks example_env (arriving_at 1704067205002) (signed_request notification_2)
      (after (webhooks example_env (arriving_at 1704067205000) (signed_request notification_1) initial))) =
     Inr \<lparr>status = 429, body = RateLimitBody ''Rate limit exceeded'' 1\<rparr> \<and>
   lastProcessedTime (after (webhooks example_env (arriving_at 1704067205000) (signed_request notification_1) initial)) =
     1704067205000"
proof -
  let ?s = "after (webhooks example_env (arriving_at 1704067205000) (signed_request notification_1) initial)"
  have s: "lastProcessedTime ?s = 1704067205000"
    by (simp add: run_defs example_defs)
  have p: "JSON_parse example_env (text_of (signed_request notification_2)) =
      Some (object_of ''2024-01-01T00:00:01.000Z'')"
    by (simp add: example_defs)
  have np: "isPing (object_of ''2024-01-01T00:00:01.000Z'') = Inr False"
    by (simp add: isPing_obj object_of_def)
  have cfg: "webhookConfig (arriving_at 1704067205002) = Some \<lparr>macSecretBase64 = secret\<rparr>"
    by (simp add: arriving_at_def)
  have sig: "x_airtable_content_mac (signed_request notification_2) =
      Some (expectedSignature_of example_env \<lparr>macSecretBase64 = secret\<rparr> (signed_request notification_2))"
    by (simp add: expectedSignature_of_def signed_request_def example_env_def)
  have fresh: "\<exists>wt. Date_getTime example_env t = Some wt \<and>
      \<bar>now_freshness (arriving_at 1704067205002) - wt\<bar> \<le> webhookTimestampWindow example_env * 1000"
    if "js_get (object_of ''2024-01-01T00:00:01.000Z'') ''timestamp'' = Some t" for t
    using that by (auto simp: object_of_def example_env_def example_date_def arriving_at_def)
  have pos: "0 < lastProcessedTime ?s"
    by (simp add: s)
  have lim: "now_ratelimit (arriving_at 1704067205002) <
      lastProcessedTime ?s + webhookRateLimit example_env * 1000"
    unfolding s by (simp add: arriving_at_def example_env_def)
  have c: "ceil_seconds (lastProcessedTime ?s + webhookRateLimit example_env * 1000 -
      now_ratelimit (arriving_at 1704067205002)) = 1"
    unfolding s by (simp add: arriving_at_def example_env_def ceil_seconds_div)
  from rate_limited_retry_after_in_seconds [OF p np cfg sig fresh pos lim] c
  have "reply (webhooks example_env (arriving_at 1704067205002) (signed_request notification_2) ?s) =
      Inr \<lparr>status = 429, body = RateLimitBody ''Rate limit exceeded'' 1\<rparr>"
    by auto
  with s show ?thesis by simp
qed

text \<open>
  The scenario of the claim: a notification is forwarded at the millisecond
  1704067205000 and the next one arrives 2 ms later, the rate limit being 1000 ms. 998 ms
  remain, and the hint of the reply is 1 (a second), not 998.
\<close>

theorem retry_after_is_not_the_remaining_milliseconds:
  "posted (after (webhooks example_env (arriving_at 1704067205000) (signed_request notification_1) initial)) =
     [WEBHOOK_RECEIVED (object_of ''2024-01-01T00:00:00.000Z'')] \<and>
   lastProcessedTime (after (webhooks example_env (arriving_at 1704067205000) (signed_request notification_1) initial))
     + webhookRateLimit example_env * 1000 - now_ratelimit (arriving_at 1704067205002) = 998 \<and>
   reply (webhooks example_env (arriving_at 1704067205002) (signed_request notification_2)
      (after (webhooks example_env (arriving_at 1704067205000) (signed_request notification_1) initial))) =
     Inr \<lparr>status = 429, body = RateLimitBody ''Rate limit exceeded'' 1\<rparr> \<and>
   reply (webhooks example_env (arriving_at 1704067205002) (signed_request notification_2)
      (after (webhooks example_env (arriving_at 1704067205000) (signed_request notification_1) initial))) \<noteq>
     Inr \<lparr>status = 429, body = RateLimitBody ''Rate limit exceeded'' 998\<rparr>"
  by (simp add: run_defs example_defs ceil_seconds_div)

text \<open>
  C10. \<^verbatim>\<open>lastProcessedTime\<close> starts at 0, and a reply with status 429 is sent only from
  a state in which it is positive. So in a run of requests from the start of the process,
  a request is answered 429 only when a request before it has been forwarded: the first
  notification that reaches the rate limiting is never turned down by it.
\<close>

theorem rate_limit_needs_an_earlier_forward:
  "lastProcessedTime initial = 0 \<and>
   (\<forall>resp. reply (webhooks E A r s) = Inr resp \<and> status resp = 429 \<longrightarrow> 0 < lastProcessedTime s) \<and>
   (\<forall>resp. reply (webhooks E A r (run E earlier initial)) = Inr resp \<and> status resp = 429 \<longrightarrow>
      (\<exists>pre1 A' r' pre2. earlier = pre1 @ (A', r') # pre2 \<and>
         forwarded (webhooks E A' r' (run E pre1 initial))))"
proof (intro conjI allI impI)
  show "lastProcessedTime initial = 0"
    by (simp add: initial_def)
next
  fix resp
  assume "reply (webhooks E A r s) = Inr resp \<and> status resp = 429"
  then show "0 < lastProcessedTime s"
    using rate_limit_reply_needs_tracker by blast
next
  fix resp
  assume "reply (webhooks E A r (run E earlier initial)) = Inr resp \<and> status resp = 429"
  then have "0 < lastProcessedTime (run E earlier initial)"
    using rate_limit_reply_needs_tracker by blast
  then show "\<exists>pre1 A' r' pre2. earlier = pre1 @ (A', r') # pre2 \<and>
      forwarded (webhooks E A' r' (run E pre1 initial))"
    by (rule tracker_needs_forward)
qed

theorem rate_limit_needs_an_earlier_forward_witness:
  "reply (webhooks example_env (arriving_at 1704067205002) (signed_request notification_2)
      (run example_env [(arriving_at 1704067205000, signed_request notification_1)] initial)) =
     Inr \<lparr>status = 429, body = RateLimitBody ''Rate limit exceeded'' 1\<rparr> \<and>
   0 < lastProcessedTime
      (run example_env [(arriving_at 1704067205000, signed_request notification_1)] initial) \<and>
   forwarded (webhooks example_env (arriving_at 1704067205000) (signed_request notification_1) initial) \<and>
   reply (webhooks example_env (arriving_at 1704067205002) (signed_request notification_2) initial) =
     Inr \<lparr>status = 200, body = StatusBody ''success''\<rparr>"
proof -
  let ?s = "run example_env [(arriving_at 1704067205000, signed_request notification_1)] initial"
  have r: "reply (webhooks example_env (arriving_at 1704067205002) (signed_request notification_2) ?s) =
      Inr \<lparr>status = 429, body = RateLimitBody ''Rate limit exceeded'' 1\<rparr>"
    by (simp add: run_defs example_defs ceil_seconds_div)
  have st: "status \<lparr>status = 429, body = RateLimitBody ''Rate limit exceeded'' 1\<rparr> = 429"
    by simp
  have "0 < lastProcessedTime ?s"
    using rate_limit_needs_an_earlier_forward [of example_env "arriving_at 1704067205002"
        "signed_request notification_2" ?s "[]"] r st
    by blast
  moreover have "forwarded (webhooks example_env (arriving_at 1704067205000)
      (signed_request notification_1) initial)"
    by (simp add: forwarded_def run_defs example_defs)
  moreover have "reply (webhooks example_env (arriving_at 1704067205002)
      (signed_request notification_2) initial) = Inr \<lparr>status = 200, body = StatusBody ''success''\<rparr>"
    by (simp add: run_defs example_defs)
  ultimately show ?thesis using r by blast
qed

end
